theory Spec2Isabelle
  imports Complex_Main
begin

section \<open>Eco Jump: the run-time simulation of \<^verbatim>\<open>src/main.py\<close>\<close>

text \<open>
  A shallow embedding of the simulation core of the game: the entity records and their
  per-tick rules, the world generator, the collision resolver and the game-flow
  controller. Drawing, fonts, the parallax layers, the menu clock and the score file
  are left out: they read the simulation state and never write it.

  Python's \<^verbatim>\<open>float\<close> is modelled by \<^typ>\<open>real\<close>: every constant is the
  decimal written in the source, and arithmetic is exact. Python's \<^verbatim>\<open>int\<close>
  is \<^typ>\<open>int\<close>. Pixel coordinates of a \<^verbatim>\<open>pygame.Rect\<close> are integers.
\<close>

subsection \<open>Config and constants\<close>

definition WIDTH :: int where "WIDTH = 460"
definition HEIGHT :: int where "HEIGHT = 720"
definition FPS :: int where "FPS = 60"

definition GRAVITY :: real where "GRAVITY = 0.50"
definition PLAYER_MOVE_SPEED :: real where "PLAYER_MOVE_SPEED = 6.2"
definition PLAYER_JUMP_VEL :: real where "PLAYER_JUMP_VEL = - 14.0"
definition PLAYER_W :: int where "PLAYER_W = 50"
definition PLAYER_H :: int where "PLAYER_H = 50"

definition INITIAL_ENERGY :: real where "INITIAL_ENERGY = 100.0"
definition PASSIVE_ENERGY_DRAIN :: real where "PASSIVE_ENERGY_DRAIN = 0.048"
definition ENEMY_HIT_ENERGY_LOSS :: real where "ENEMY_HIT_ENERGY_LOSS = 22.0"
definition ENERGY_FROM_SOLAR :: real where "ENERGY_FROM_SOLAR = 14.0"
definition ENERGY_FROM_WIND :: real where "ENERGY_FROM_WIND = 7.0"
definition ENERGY_FROM_HYDRO :: real where "ENERGY_FROM_HYDRO = 9.0"
definition ENERGY_FROM_CELL :: real where "ENERGY_FROM_CELL = 22.0"

definition PLATFORM_W :: int where "PLATFORM_W = 104"
definition PLATFORM_H :: int where "PLATFORM_H = 16"
definition SPAWN_MIN_GAP :: int where "SPAWN_MIN_GAP = 90"
definition SPAWN_MAX_GAP :: int where "SPAWN_MAX_GAP = 170"
definition SPAWN_X_MARGIN :: int where "SPAWN_X_MARGIN = 24"
definition MAX_PLATFORMS_ON_SCREEN :: nat where "MAX_PLATFORMS_ON_SCREEN = 22"

definition ENEMY_BASE_SPAWN_CHANCE :: real where "ENEMY_BASE_SPAWN_CHANCE = 0.06"
definition ENEMY_PATROL_SPEED :: real where "ENEMY_PATROL_SPEED = 1.3"
definition ENEMY_SINE_SPEED :: real where "ENEMY_SINE_SPEED = 0.03"
definition ENEMY_CHASER_SPEED :: real where "ENEMY_CHASER_SPEED = 2.0"
definition BONUS_CHANCE_BASE :: real where "BONUS_CHANCE_BASE = 0.22"

text \<open>\<^verbatim>\<open>int(x)\<close> on a float truncates towards zero.\<close>

definition py_int :: "real \<Rightarrow> int" where
  "py_int x = (if 0 \<le> x then \<lfloor>x\<rfloor> else \<lceil>x\<rceil>)"

definition SCROLL_TRIGGER_Y :: int where
  "SCROLL_TRIGGER_Y = py_int (real_of_int HEIGHT * 0.40)"

text \<open>Effect durations, in frames at 60 frames per second.\<close>

definition DUR_LED :: int where "DUR_LED = 14 * FPS"
definition DUR_SHIELD :: int where "DUR_SHIELD = 12 * FPS"
definition DUR_JET :: int where "DUR_JET = py_int (2.0 * real_of_int FPS)"
definition DUR_INVINCIBLE :: int where "DUR_INVINCIBLE = py_int (2.0 * real_of_int FPS)"

lemmas config_defs =
  WIDTH_def HEIGHT_def FPS_def GRAVITY_def PLAYER_MOVE_SPEED_def PLAYER_JUMP_VEL_def
  PLAYER_W_def PLAYER_H_def INITIAL_ENERGY_def PASSIVE_ENERGY_DRAIN_def
  ENEMY_HIT_ENERGY_LOSS_def ENERGY_FROM_SOLAR_def ENERGY_FROM_WIND_def
  ENERGY_FROM_HYDRO_def ENERGY_FROM_CELL_def PLATFORM_W_def PLATFORM_H_def
  SPAWN_MIN_GAP_def SPAWN_MAX_GAP_def SPAWN_X_MARGIN_def MAX_PLATFORMS_ON_SCREEN_def
  ENEMY_BASE_SPAWN_CHANCE_def ENEMY_PATROL_SPEED_def ENEMY_SINE_SPEED_def
  ENEMY_CHASER_SPEED_def BONUS_CHANCE_BASE_def

datatype game_state = STATE_MENU | STATE_PLAY | STATE_PAUSE | STATE_QUIZ | STATE_GAMEOVER

datatype platform_kind =
  P_NORMAL | P_SOLAR | P_WIND | P_HYDRO | P_MOVING | P_BREAKING | P_DISAPPEARING

datatype enemy_kind = E_BULB | E_PIPE | E_SMOKE | E_CHASER

datatype bonus_kind = B_CELL | B_LED | B_SHIELD | B_JET | B_SPRING

subsection \<open>Utilities\<close>

definition clamp :: "'a::linorder \<Rightarrow> 'a \<Rightarrow> 'a \<Rightarrow> 'a" where
  "clamp v lo hi = max lo (min hi v)"

definition lerp :: "real \<Rightarrow> real \<Rightarrow> real \<Rightarrow> real" where
  "lerp a b t = a + (b - a) * t"

subsection \<open>Random numbers\<close>

text \<open>
  A random generator is a tape of raw draws and a read position; nothing is assumed of
  the tape, so a theorem holds for every outcome of the draws. \<^verbatim>\<open>random()\<close>
  is a fraction with 53 random bits, in \<open>[0, 1)\<close>; \<^verbatim>\<open>randint(a, b)\<close> and
  \<^verbatim>\<open>choice\<close> pick uniformly by remainder.
\<close>

record rng =
  tape :: "nat \<Rightarrow> nat"
  rpos :: nat

definition next_raw :: "rng \<Rightarrow> nat \<times> rng" where
  "next_raw r = (tape r (rpos r), r\<lparr>rpos := rpos r + 1\<rparr>)"

definition random01 :: "rng \<Rightarrow> real \<times> rng" where
  "random01 r = (case next_raw r of (n, r') \<Rightarrow> (real (n mod 2 ^ 53) / 2 ^ 53, r'))"

definition randint :: "int \<Rightarrow> int \<Rightarrow> rng \<Rightarrow> int \<times> rng" where
  "randint a b r = (case next_raw r of (n, r') \<Rightarrow> (a + int (n mod nat (b - a + 1)), r'))"

subsection \<open>World generation and difficulty progression\<close>

record world =
  spawn_y :: int
  world_rng :: rng
  wscore :: int

definition progress_factor :: "world \<Rightarrow> real" where
  "progress_factor w = clamp (real_of_int (wscore w) / 4000.0) 0.0 1.0"

definition speed_factor :: "world \<Rightarrow> real" where
  "speed_factor w = 1.0 + 0.5 * progress_factor w"

definition choose_platform_type :: "world \<Rightarrow> platform_kind \<times> world" where
  "choose_platform_type w =
    (let p = progress_factor w in
     case random01 (world_rng w) of (r, g') \<Rightarrow>
       (if r < 0.24 - 0.08 * p then P_SOLAR
        else if r < 0.44 - 0.08 * p then P_WIND
        else if r < 0.60 - 0.06 * p then P_HYDRO
        else if r < 0.78 - 0.08 * p then P_NORMAL
        else if r < 0.88 then P_MOVING
        else if r < 0.94 then P_DISAPPEARING
        else P_BREAKING,
        w\<lparr>world_rng := g'\<rparr>))"

definition enemy_spawn_chance :: "world \<Rightarrow> real" where
  "enemy_spawn_chance w = ENEMY_BASE_SPAWN_CHANCE + progress_factor w * 0.18"

definition choose_enemy :: "world \<Rightarrow> enemy_kind option \<times> world" where
  "choose_enemy w =
    (case random01 (world_rng w) of (r0, g0) \<Rightarrow>
       if r0 < enemy_spawn_chance w then
         (case random01 g0 of (r, g1) \<Rightarrow>
            (Some (if r < 0.40 then E_BULB
                   else if r < 0.70 then E_PIPE
                   else if r < 0.85 then E_SMOKE
                   else E_CHASER),
             w\<lparr>world_rng := g1\<rparr>))
       else (None, w\<lparr>world_rng := g0\<rparr>))"

definition choose_bonus :: "world \<Rightarrow> bonus_kind option \<times> world" where
  "choose_bonus w =
    (case random01 (world_rng w) of (r, g0) \<Rightarrow>
       if r < BONUS_CHANCE_BASE then
         (let p = progress_factor w in
          case random01 g0 of (rr, g1) \<Rightarrow>
            (Some (if rr < 0.40 - 0.15 * p then B_CELL
                   else if rr < 0.60 then B_LED
                   else if rr < 0.80 then B_SHIELD
                   else if rr < 0.93 then B_JET
                   else B_SPRING),
             w\<lparr>world_rng := g1\<rparr>))
       else (None, w\<lparr>world_rng := g0\<rparr>))"

subsection \<open>Rectangles\<close>

text \<open>
  \<^verbatim>\<open>pygame.Rect\<close>: integer position and size. The edges and the setters are
  the library's attributes; \<^verbatim>\<open>colliderect\<close> is the library's overlap test
  (rectangles that only touch do not collide, and an empty rectangle collides with
  nothing).
\<close>

record rect =
  rx :: int
  ry :: int
  rw :: int
  rh :: int

definition rect_left :: "rect \<Rightarrow> int" where "rect_left r = rx r"
definition rect_top :: "rect \<Rightarrow> int" where "rect_top r = ry r"
definition rect_right :: "rect \<Rightarrow> int" where "rect_right r = rx r + rw r"
definition rect_bottom :: "rect \<Rightarrow> int" where "rect_bottom r = ry r + rh r"
definition rect_centerx :: "rect \<Rightarrow> int" where "rect_centerx r = rx r + rw r div 2"
definition rect_centery :: "rect \<Rightarrow> int" where "rect_centery r = ry r + rh r div 2"

definition set_left :: "int \<Rightarrow> rect \<Rightarrow> rect" where "set_left v r = r\<lparr>rx := v\<rparr>"
definition set_right :: "int \<Rightarrow> rect \<Rightarrow> rect" where "set_right v r = r\<lparr>rx := v - rw r\<rparr>"
definition set_top :: "int \<Rightarrow> rect \<Rightarrow> rect" where "set_top v r = r\<lparr>ry := v\<rparr>"
definition set_bottom :: "int \<Rightarrow> rect \<Rightarrow> rect" where "set_bottom v r = r\<lparr>ry := v - rh r\<rparr>"

definition set_center :: "int \<Rightarrow> int \<Rightarrow> rect \<Rightarrow> rect" where
  "set_center cx cy r = r\<lparr>rx := cx - rw r div 2, ry := cy - rh r div 2\<rparr>"

definition move_x :: "int \<Rightarrow> rect \<Rightarrow> rect" where "move_x d r = r\<lparr>rx := rx r + d\<rparr>"
definition move_y :: "int \<Rightarrow> rect \<Rightarrow> rect" where "move_y d r = r\<lparr>ry := ry r + d\<rparr>"

text \<open>\<^verbatim>\<open>Surface((w, h)).get_rect(center=(x, y))\<close>.\<close>

definition rect_centered :: "int \<Rightarrow> int \<Rightarrow> int \<Rightarrow> int \<Rightarrow> rect" where
  "rect_centered w h x y = set_center x y \<lparr>rx = 0, ry = 0, rw = w, rh = h\<rparr>"

definition colliderect :: "rect \<Rightarrow> rect \<Rightarrow> bool" where
  "colliderect a b =
    (if rw a = 0 \<or> rh a = 0 \<or> rw b = 0 \<or> rh b = 0 then False
     else min (rx a) (rx a + rw a) < max (rx b) (rx b + rw b)
        \<and> min (ry a) (ry a + rh a) < max (ry b) (ry b + rh b)
        \<and> max (rx a) (rx a + rw a) > min (rx b) (rx b + rw b)
        \<and> max (ry a) (ry a + rh a) > min (ry b) (ry b + rh b))"

subsection \<open>Entities\<close>

text \<open>
  A platform is a mutable object that the player refers to (its last safe platform) and
  that the platform group holds: the model gives each platform an identity \<open>pid\<close>,
  fresh at creation, and the player holds the identity.
\<close>

record platform =
  pid :: nat
  plat_kind :: platform_kind
  plat_rect :: rect
  active :: bool
  fade :: real
  plat_phase :: real
  start_x :: int

record player =
  rect :: rect
  prev_rect :: rect
  vel_x :: real
  vel_y :: real
  energy :: real
  lives :: int
  pscore :: int
  drain_slow :: int
  shield :: int
  jet :: int
  invincible :: int
  facing :: int
  last_safe_platform :: "nat option"

record enemy =
  en_kind :: enemy_kind
  en_rect :: rect
  en_phase :: real

record bonus =
  bo_kind :: bonus_kind
  bo_rect :: rect
  bo_phase :: real

text \<open>The pressed keys, as \<^verbatim>\<open>Player.update\<close> reads them: left is
  \<^verbatim>\<open>K_LEFT\<close> or \<^verbatim>\<open>K_a\<close>, right is \<^verbatim>\<open>K_RIGHT\<close> or \<^verbatim>\<open>K_d\<close>.\<close>

record keys =
  key_left :: bool
  key_right :: bool

text \<open>\<^verbatim>\<open>Player.__init__(x, y, lives)\<close>.\<close>

definition new_player :: "int \<Rightarrow> int \<Rightarrow> int \<Rightarrow> player" where
  "new_player x y l =
    \<lparr>rect = rect_centered PLAYER_W PLAYER_H x y,
     prev_rect = rect_centered PLAYER_W PLAYER_H x y,
     vel_x = 0, vel_y = 0,
     energy = INITIAL_ENERGY, lives = l, pscore = 0,
     drain_slow = 0, shield = 0, jet = 0, invincible = 0,
     facing = 1, last_safe_platform = None\<rparr>"

text \<open>\<^verbatim>\<open>Player.update\<close>, in the order of the source: horizontal control, horizontal
  move and wrap, vertical move, energy drain, timers.\<close>

definition horizontal_control :: "keys \<Rightarrow> int option \<Rightarrow> player \<Rightarrow> player" where
  "horizontal_control ks tx p =
    (let move_speed = PLAYER_MOVE_SPEED in
     case tx of
       Some t \<Rightarrow>
         if t < WIDTH div 2 then p\<lparr>vel_x := - move_speed, facing := - 1\<rparr>
         else p\<lparr>vel_x := move_speed, facing := 1\<rparr>
     | None \<Rightarrow>
         if key_left ks then p\<lparr>vel_x := - move_speed, facing := - 1\<rparr>
         else if key_right ks then p\<lparr>vel_x := move_speed, facing := 1\<rparr>
         else p\<lparr>vel_x := 0\<rparr>)"

definition apply_horizontal :: "player \<Rightarrow> player" where
  "apply_horizontal p =
    (let r = move_x (py_int (vel_x p)) (rect p) in
     if rect_right r < 0 then p\<lparr>rect := set_left WIDTH r\<rparr>
     else if rect_left r > WIDTH then p\<lparr>rect := set_right 0 r\<rparr>
     else p\<lparr>rect := r\<rparr>)"

definition apply_vertical :: "player \<Rightarrow> player" where
  "apply_vertical p =
    (let q = (if jet p > 0 then p\<lparr>vel_y := - 9.5, jet := jet p - 1\<rparr>
              else p\<lparr>vel_y := vel_y p + GRAVITY\<rparr>)
     in q\<lparr>rect := move_y (py_int (vel_y q)) (rect q)\<rparr>)"

definition energy_drain :: "player \<Rightarrow> player" where
  "energy_drain p =
    (let drain = PASSIVE_ENERGY_DRAIN * (if drain_slow p > 0 then 0.6 else 1.0)
     in p\<lparr>energy := clamp (energy p - drain) 0.0 100.0\<rparr>)"

definition tick_timers :: "player \<Rightarrow> player" where
  "tick_timers p =
    p\<lparr>drain_slow := (if drain_slow p > 0 then drain_slow p - 1 else drain_slow p),
      shield := (if shield p > 0 then shield p - 1 else shield p),
      invincible := (if invincible p > 0 then invincible p - 1 else invincible p)\<rparr>"

definition Player_update :: "keys \<Rightarrow> int option \<Rightarrow> player \<Rightarrow> player" where
  "Player_update ks tx p =
    tick_timers (energy_drain (apply_vertical (apply_horizontal
      (horizontal_control ks tx (p\<lparr>prev_rect := rect p\<rparr>)))))"

text \<open>\<^verbatim>\<open>Player.bounce(power=None, speed_factor=1.0)\<close>.\<close>

definition bounce :: "real option \<Rightarrow> real \<Rightarrow> player \<Rightarrow> player" where
  "bounce pwr sf p =
    (let base = PLAYER_JUMP_VEL * sf
     in p\<lparr>vel_y := (case pwr of None \<Rightarrow> base | Some v \<Rightarrow> v)\<rparr>)"

definition take_enemy_hit :: "player \<Rightarrow> player" where
  "take_enemy_hit p =
    (if invincible p > 0 then p
     else if shield p > 0 then p\<lparr>shield := 0\<rparr>
     else
       (let q = p\<lparr>energy := clamp (energy p - ENEMY_HIT_ENERGY_LOSS) 0.0 100.0\<rparr>
        in if vel_y q < - 8 then q\<lparr>vel_y := - 8\<rparr> else q))"

definition mark_safe_platform :: "platform \<Rightarrow> player \<Rightarrow> player" where
  "mark_safe_platform pl p = p\<lparr>last_safe_platform := Some (pid pl)\<rparr>"

text \<open>A platform is alive while the platform group holds it; \<open>find_platform\<close> reads the
  object behind an identity.\<close>

definition find_platform :: "nat \<Rightarrow> platform list \<Rightarrow> platform option" where
  "find_platform i ps = List.find (\<lambda>q. pid q = i) ps"

definition revive_on_safe :: "platform list \<Rightarrow> player \<Rightarrow> player" where
  "revive_on_safe ps p =
    (let y = (case last_safe_platform p of
                None \<Rightarrow> HEIGHT div 2
              | Some i \<Rightarrow>
                  (case find_platform i ps of
                     None \<Rightarrow> HEIGHT div 2
                   | Some pl \<Rightarrow> rect_top (plat_rect pl) - PLAYER_H div 2 - 2))
     in p\<lparr>rect := set_center (WIDTH div 2) y (rect p),
          vel_x := 0, vel_y := 0,
          energy := max 55.0 (energy p),
          invincible := DUR_INVINCIBLE\<rparr>)"

text \<open>\<^verbatim>\<open>Platform(x, y, kind)\<close>; \<open>u\<close> is the constructor's \<^verbatim>\<open>random.random()\<close>.\<close>

definition new_platform :: "nat \<Rightarrow> int \<Rightarrow> int \<Rightarrow> platform_kind \<Rightarrow> real \<Rightarrow> platform" where
  "new_platform i x y k u =
    \<lparr>pid = i, plat_kind = k,
     plat_rect = \<lparr>rx = x, ry = y, rw = PLATFORM_W, rh = PLATFORM_H\<rparr>,
     active = True, fade = 1.0, plat_phase = u * 10.0, start_x = x\<rparr>"

definition Platform_update :: "real \<Rightarrow> platform \<Rightarrow> platform" where
  "Platform_update moving_speed_factor p =
    (if plat_kind p = P_MOVING \<and> active p then
       (let ph = plat_phase p + 0.02 * moving_speed_factor;
            offset = py_int (sin ph * 80)
        in p\<lparr>plat_phase := ph, plat_rect := (plat_rect p)\<lparr>rx := start_x p + offset\<rparr>\<rparr>)
     else p)"

definition new_enemy :: "int \<Rightarrow> int \<Rightarrow> enemy_kind \<Rightarrow> real \<Rightarrow> enemy" where
  "new_enemy x y k u =
    \<lparr>en_kind = k, en_rect = rect_centered 36 36 x y, en_phase = u * 6.28\<rparr>"

definition Enemy_update :: "player \<Rightarrow> real \<Rightarrow> enemy \<Rightarrow> enemy" where
  "Enemy_update pl enemy_speed_factor e0 =
    (let e = e0\<lparr>en_phase := en_phase e0 + ENEMY_SINE_SPEED * enemy_speed_factor\<rparr> in
     case en_kind e of
       E_BULB \<Rightarrow>
         e\<lparr>en_rect := move_x (py_int (sin (en_phase e) * ENEMY_PATROL_SPEED * 1.4
                                        * enemy_speed_factor)) (en_rect e)\<rparr>
     | E_PIPE \<Rightarrow>
         e\<lparr>en_rect := move_y (py_int (sin (en_phase e * 0.9) * 1.0 * enemy_speed_factor))
                         (en_rect e)\<rparr>
     | E_SMOKE \<Rightarrow>
         e\<lparr>en_rect := move_y (py_int ((- 0.5 + sin (en_phase e) * 0.25) * enemy_speed_factor))
                         (en_rect e)\<rparr>
     | E_CHASER \<Rightarrow>
         (let r1 = (if \<bar>rect_centerx (rect pl) - rect_centerx (en_rect e)\<bar> > 4 then
                      (let direction = (if rect_centerx (rect pl) > rect_centerx (en_rect e)
                                        then 1 else - 1 :: real)
                       in move_x (py_int (direction * ENEMY_CHASER_SPEED * enemy_speed_factor))
                            (en_rect e))
                    else en_rect e)
          in e\<lparr>en_rect := move_y (py_int (sin (en_phase e) * 0.6 * enemy_speed_factor)) r1\<rparr>))"

definition new_bonus :: "int \<Rightarrow> int \<Rightarrow> bonus_kind \<Rightarrow> real \<Rightarrow> bonus" where
  "new_bonus x y k u =
    \<lparr>bo_kind = k, bo_rect = rect_centered 28 28 x y, bo_phase = u * 6.28\<rparr>"

definition Bonus_update :: "bonus \<Rightarrow> bonus" where
  "Bonus_update b =
    (let ph = bo_phase b + 0.06
     in b\<lparr>bo_phase := ph, bo_rect := move_y (py_int (sin ph * 0.5)) (bo_rect b)\<rparr>)"

subsection \<open>Quiz\<close>

text \<open>
  The question bank holds 30 questions. A question's prompt, options and hint are only
  drawn; the simulation reads the index of the right option, \<open>ans\<close>. \<open>q_index\<close> is
  the question's place in the bank.
\<close>

record question =
  q_index :: nat
  ans :: int

definition QUIZ :: "question list" where
  "QUIZ =
    [
    \<lparr>q_index = 0, ans = 2\<rparr>, \<lparr>q_index = 1, ans = 1\<rparr>, \<lparr>q_index = 2, ans = 2\<rparr>,
     \<lparr>q_index = 3, ans = 0\<rparr>, \<lparr>q_index = 4, ans = 1\<rparr>, \<lparr>q_index = 5, ans = 1\<rparr>,
     \<lparr>q_index = 6, ans = 1\<rparr>, \<lparr>q_index = 7, ans = 2\<rparr>, \<lparr>q_index = 8, ans = 1\<rparr>,
     \<lparr>q_index = 9, ans = 1\<rparr>, \<lparr>q_index = 10, ans = 1\<rparr>, \<lparr>q_index = 11, ans = 2\<rparr>,
     \<lparr>q_index = 12, ans = 1\<rparr>, \<lparr>q_index = 13, ans = 1\<rparr>, \<lparr>q_index = 14, ans = 0\<rparr>,
     \<lparr>q_index = 15, ans = 1\<rparr>, \<lparr>q_index = 16, ans = 1\<rparr>, \<lparr>q_index = 17, ans = 1\<rparr>,
     \<lparr>q_index = 18, ans = 1\<rparr>, \<lparr>q_index = 19, ans = 2\<rparr>, \<lparr>q_index = 20, ans = 0\<rparr>,
     \<lparr>q_index = 21, ans = 1\<rparr>, \<lparr>q_index = 22, ans = 1\<rparr>, \<lparr>q_index = 23, ans = 0\<rparr>,
     \<lparr>q_index = 24, ans = 1\<rparr>, \<lparr>q_index = 25, ans = 1\<rparr>, \<lparr>q_index = 26, ans = 1\<rparr>,
     \<lparr>q_index = 27, ans = 0\<rparr>, \<lparr>q_index = 28, ans = 1\<rparr>, \<lparr>q_index = 29, ans = 3\<rparr>]"

text \<open>The feedback text: empty, the text of a right answer (the one that contains the
  word the controller looks for), or the text of a wrong answer.\<close>

datatype feedback = FB_EMPTY | FB_CORRECT | FB_WRONG

record quiz_ui =
  selected :: int
  cur :: "question option"
  feedback :: feedback
  feedback_timer :: int

definition choice :: "'a list \<Rightarrow> rng \<Rightarrow> 'a \<times> rng" where
  "choice xs r = (case next_raw r of (n, r') \<Rightarrow> (xs ! (n mod length xs), r'))"

definition pick :: "quiz_ui \<Rightarrow> rng \<Rightarrow> quiz_ui \<times> rng" where
  "pick q r =
    (case choice QUIZ r of (c, r') \<Rightarrow>
       (q\<lparr>selected := 0, cur := Some c, feedback := FB_EMPTY, feedback_timer := 0\<rparr>, r'))"

datatype quiz_key = QK_UP | QK_DOWN | QK_CONFIRM | QK_OTHER

text \<open>\<^verbatim>\<open>QuizUI.handle\<close> on a key press: the pair (answered, correct) and the new
  quiz. Confirming with no current question raises in the source: \<open>None\<close>.\<close>

definition handle :: "quiz_key \<Rightarrow> quiz_ui \<Rightarrow> ((bool \<times> bool) \<times> quiz_ui) option" where
  "handle k q =
    (case k of
       QK_UP \<Rightarrow> Some ((False, False), q\<lparr>selected := (selected q - 1) mod 4\<rparr>)
     | QK_DOWN \<Rightarrow> Some ((False, False), q\<lparr>selected := (selected q + 1) mod 4\<rparr>)
     | QK_CONFIRM \<Rightarrow>
         (case cur q of
            None \<Rightarrow> None
          | Some c \<Rightarrow>
              (let correct = (selected q = ans c)
               in Some ((True, correct),
                    q\<lparr>feedback := (if correct then FB_CORRECT else FB_WRONG),
                      feedback_timer := py_int (0.9 * real_of_int FPS)\<rparr>)))
     | QK_OTHER \<Rightarrow> Some ((False, False), q))"

definition QuizUI_update :: "quiz_ui \<Rightarrow> quiz_ui" where
  "QuizUI_update q =
    (if feedback_timer q > 0 then q\<lparr>feedback_timer := feedback_timer q - 1\<rparr> else q)"

subsection \<open>Game core\<close>

record game =
  gstate :: game_state
  quiz :: quiz_ui
  world :: world
  platforms :: "platform list"
  enemies :: "enemy list"
  bonuses :: "bonus list"
  player :: player
  high_score :: int
  score :: int
  ascended_px :: int
  touch_x :: "int option"
  global_rng :: rng
  next_pid :: nat

text \<open>Draws from the module-level generator.\<close>

definition g_randint :: "int \<Rightarrow> int \<Rightarrow> game \<Rightarrow> int \<times> game" where
  "g_randint a b g = (case randint a b (global_rng g) of (v, r) \<Rightarrow> (v, g\<lparr>global_rng := r\<rparr>))"

definition g_random :: "game \<Rightarrow> real \<times> game" where
  "g_random g = (case random01 (global_rng g) of (v, r) \<Rightarrow> (v, g\<lparr>global_rng := r\<rparr>))"

subsubsection \<open>Run reset\<close>

text \<open>\<^verbatim>\<open>init_run\<close>: the groups are emptied, the world is new (its generator \<open>r\<close>
  is freshly seeded), score and distance are zero, the player is new with two lives; ten
  platforms are laid out as a ladder, the first one solar, and one more under the player.
  \<open>initial_platform\<close> is the body of the ladder's loop; it carries the previous
  platform's x.\<close>

definition initial_platform :: "nat \<Rightarrow> int \<times> game \<Rightarrow> int \<times> game" where
  "initial_platform i s =
    (case s of (prev_x, g) \<Rightarrow>
     let kind = (if i > 0 then P_NORMAL else P_SOLAR) in
     case g_randint (- 90) 90 g of (d, g1) \<Rightarrow>
     let x = clamp (prev_x + d) SPAWN_X_MARGIN (WIDTH - PLATFORM_W - SPAWN_X_MARGIN);
         y = (HEIGHT - 80) - int i * 70
     in
     case g_random g1 of (u, g2) \<Rightarrow>
     let p = new_platform (next_pid g2) x y kind u
     in (x, g2\<lparr>platforms := platforms g2 @ [p], next_pid := next_pid g2 + 1,
              world := (world g2)\<lparr>spawn_y := y\<rparr>\<rparr>))"

definition init_run :: "rng \<Rightarrow> game \<Rightarrow> game" where
  "init_run r g =
    (let g0 = g\<lparr>platforms := [], enemies := [], bonuses := [],
                 world := \<lparr>spawn_y = HEIGHT - 120, world_rng = r, wscore = 0\<rparr>,
                 score := 0, ascended_px := 0, touch_x := None,
                 player := new_player (WIDTH div 2) (HEIGHT - 140) 2\<rparr>;
         prev_x = rect_centerx (rect (player g0)) - PLATFORM_W div 2
     in
     case fold initial_platform [0..<10] (prev_x, g0) of (x, g1) \<Rightarrow>
     case g_random g1 of (u, g2) \<Rightarrow>
     let p = new_platform (next_pid g2)
               (rect_centerx (rect (player g2)) - PLATFORM_W div 2)
               (rect_bottom (rect (player g2)) + 60) P_NORMAL u
     in g2\<lparr>platforms := platforms g2 @ [p], next_pid := next_pid g2 + 1\<rparr>)"


subsubsection \<open>Spawning\<close>

text \<open>One round of the loop of \<^verbatim>\<open>spawn_next\<close>, in four parts: the platform, the
  spring on it, the enemy, the bonus.\<close>

definition spawn_platform :: "real \<Rightarrow> game \<Rightarrow> platform \<times> game" where
  "spawn_platform sf g =
    (case g_randint (py_int (real_of_int SPAWN_MIN_GAP / sf))
                    (py_int (real_of_int SPAWN_MAX_GAP / sf)) g of (gap, g1) \<Rightarrow>
     let w1 = (world g1)\<lparr>spawn_y := spawn_y (world g1) - gap\<rparr> in
     case choose_platform_type w1 of (kind, w2) \<Rightarrow>
     case g_randint SPAWN_X_MARGIN (WIDTH - PLATFORM_W - SPAWN_X_MARGIN) (g1\<lparr>world := w2\<rparr>)
       of (x0, g2) \<Rightarrow>
     let px = rect_centerx (rect (player g2)) - PLATFORM_W div 2;
         x = clamp (py_int (lerp (real_of_int x0) (real_of_int px) 0.35))
               SPAWN_X_MARGIN (WIDTH - PLATFORM_W - SPAWN_X_MARGIN)
     in
     case g_random g2 of (u, g3) \<Rightarrow>
     let p = new_platform (next_pid g3) x (spawn_y (world g3)) kind u
     in (p, g3\<lparr>platforms := platforms g3 @ [p], next_pid := next_pid g3 + 1\<rparr>))"

definition spawn_spring :: "platform \<Rightarrow> game \<Rightarrow> game" where
  "spawn_spring p g =
    (if plat_kind p = P_NORMAL \<or> plat_kind p = P_MOVING then
       (case g_random g of (r, g1) \<Rightarrow>
          if r < 0.10 then
            (case g_random g1 of (u, g2) \<Rightarrow>
               g2\<lparr>bonuses := bonuses g2 @
                 [new_bonus (rect_centerx (plat_rect p)) (rect_top (plat_rect p) - 16)
                    B_SPRING u]\<rparr>)
          else g1)
     else g)"

definition spawn_enemy :: "platform \<Rightarrow> game \<Rightarrow> game" where
  "spawn_enemy p g =
    (case choose_enemy (world g) of (ek, w1) \<Rightarrow>
     let g1 = g\<lparr>world := w1\<rparr> in
     case ek of
       None \<Rightarrow> g1
     | Some k \<Rightarrow>
         (case g_randint (- 70) 70 g1 of (dx, g2) \<Rightarrow>
          case g_random g2 of (u, g3) \<Rightarrow>
            g3\<lparr>enemies := enemies g3 @
              [new_enemy (rect_centerx (plat_rect p) + dx) (rect_top (plat_rect p) - 28) k u]\<rparr>))"

definition spawn_bonus :: "platform \<Rightarrow> game \<Rightarrow> game" where
  "spawn_bonus p g =
    (case choose_bonus (world g) of (bk, w1) \<Rightarrow>
     let g1 = g\<lparr>world := w1\<rparr> in
     case bk of
       None \<Rightarrow> g1
     | Some k \<Rightarrow>
         (case g_randint 20 40 g1 of (d, g2) \<Rightarrow>
          let by = rect_top (plat_rect p) - d in
          case g_randint (- 28) 28 g2 of (dx, g3) \<Rightarrow>
          case g_random g3 of (u, g4) \<Rightarrow>
            g4\<lparr>bonuses := bonuses g4 @
              [new_bonus (rect_centerx (plat_rect p) + dx) by k u]\<rparr>))"

definition spawn_one :: "real \<Rightarrow> game \<Rightarrow> game" where
  "spawn_one sf g =
    (case spawn_platform sf g of (p, g1) \<Rightarrow> spawn_bonus p (spawn_enemy p (spawn_spring p g1)))"

subsubsection \<open>Quiz, death and continue\<close>

definition game_over :: "game \<Rightarrow> game" where
  "game_over g =
    (let g1 = g\<lparr>gstate := STATE_GAMEOVER,
                 score := max (score g) (py_int (real_of_int (ascended_px g) * 0.06))\<rparr>;
         current_score = score g1
     in if current_score > high_score g1 then g1\<lparr>high_score := current_score\<rparr> else g1)"

definition trigger_quiz :: "game \<Rightarrow> game" where
  "trigger_quiz g =
    (let g1 = g\<lparr>player := (player g)\<lparr>lives := lives (player g) - 1\<rparr>\<rparr> in
     if lives (player g1) < 0 then game_over g1
     else
       (case pick (quiz g1) (global_rng g1) of (q, r) \<Rightarrow>
          g1\<lparr>quiz := q, global_rng := r, gstate := STATE_QUIZ\<rparr>))"

definition resolve_quiz_result :: "bool \<Rightarrow> game \<Rightarrow> game" where
  "resolve_quiz_result correct g =
    (if correct then
       (let p1 = (player g)\<lparr>lives := lives (player g) + 1\<rparr>
        in g\<lparr>player := revive_on_safe (platforms g) p1, gstate := STATE_PLAY\<rparr>)
     else game_over g)"

subsubsection \<open>Collisions\<close>

definition set_platform :: "platform \<Rightarrow> platform list \<Rightarrow> platform list" where
  "set_platform p ps = map (\<lambda>q. if pid q = pid p then p else q) ps"

text \<open>\<^verbatim>\<open>handle_platform_effect(p)\<close>: the effect on the player, and on the platform
  object, which the group holds under its identity.\<close>

definition handle_platform_effect :: "platform \<Rightarrow> game \<Rightarrow> game" where
  "handle_platform_effect p g =
    (case plat_kind p of
       P_SOLAR \<Rightarrow>
         g\<lparr>player := (player g)\<lparr>energy := clamp (energy (player g) + ENERGY_FROM_SOLAR) 0 100\<rparr>\<rparr>
     | P_WIND \<Rightarrow>
         g\<lparr>player := (player g)\<lparr>energy := clamp (energy (player g) + ENERGY_FROM_WIND) 0 100\<rparr>\<rparr>
     | P_HYDRO \<Rightarrow>
         g\<lparr>player := (player g)\<lparr>energy := clamp (energy (player g) + ENERGY_FROM_HYDRO) 0 100,
                                vel_y := PLAYER_JUMP_VEL * 1.07\<rparr>\<rparr>
     | P_BREAKING \<Rightarrow>
         g\<lparr>platforms := set_platform (p\<lparr>active := False, fade := 0.0\<rparr>) (platforms g)\<rparr>
     | P_DISAPPEARING \<Rightarrow>
         g\<lparr>platforms := set_platform (p\<lparr>active := False, fade := 0.85\<rparr>) (platforms g)\<rparr>
     | P_NORMAL \<Rightarrow> g
     | P_MOVING \<Rightarrow> g)"

text \<open>The body of the landing branch: snap, bounce, mark, effect.\<close>

definition land :: "real \<Rightarrow> platform \<Rightarrow> game \<Rightarrow> game" where
  "land sf p g =
    (let pl1 = (player g)\<lparr>rect := set_bottom (rect_top (plat_rect p)) (rect (player g))\<rparr>;
         pl2 = bounce None sf pl1;
         pl3 = mark_safe_platform p pl2
     in handle_platform_effect p (g\<lparr>player := pl3\<rparr>))"

definition lands_on :: "player \<Rightarrow> platform \<Rightarrow> bool" where
  "lands_on pl p =
    (rect_bottom (prev_rect pl) \<le> rect_top (plat_rect p) \<and> colliderect (rect pl) (plat_rect p))"

text \<open>The first loop of \<^verbatim>\<open>resolve_platform_collisions\<close>: it skips inactive
  platforms and stops at the first landing.\<close>

fun land_scan :: "real \<Rightarrow> platform list \<Rightarrow> game \<Rightarrow> game" where
  "land_scan sf [] g = g"
| "land_scan sf (p # ps) g =
    (if \<not> active p then land_scan sf ps g
     else if lands_on (player g) p then land sf p g
     else land_scan sf ps g)"

text \<open>The second loop: inactive disappearing platforms fade out and are removed at
  fade zero.\<close>

fun fade_out :: "platform list \<Rightarrow> platform list" where
  "fade_out [] = []"
| "fade_out (p # ps) =
    (if plat_kind p = P_DISAPPEARING \<and> \<not> active p then
       (let p' = p\<lparr>fade := max 0.0 (fade p - 0.06)\<rparr>
        in if fade p' \<le> 0.0 then fade_out ps else p' # fade_out ps)
     else p # fade_out ps)"

definition resolve_platform_collisions :: "real \<Rightarrow> game \<Rightarrow> game" where
  "resolve_platform_collisions sf g =
    (if vel_y (player g) \<le> 0 then g
     else
       (let g1 = land_scan sf (platforms g) g
        in g1\<lparr>platforms := fade_out (platforms g1)\<rparr>))"

text \<open>The body of the loop of \<^verbatim>\<open>resolve_enemy_collisions\<close> for one enemy: the
  enemy as the body leaves it, and the game.\<close>

definition enemy_step :: "real \<Rightarrow> enemy \<Rightarrow> game \<Rightarrow> enemy \<times> game" where
  "enemy_step sf e g =
    (let e1 = Enemy_update (player g) sf e in
     if colliderect (rect (player g)) (en_rect e1) then
       (let g1 = g\<lparr>player := take_enemy_hit (player g)\<rparr> in
        case choice [- 10, 10] (global_rng g1) of (d, r) \<Rightarrow>
        let e2 = e1\<lparr>en_rect := move_x d (en_rect e1)\<rparr>;
            g2 = g1\<lparr>global_rng := r\<rparr>
        in (e2, if energy (player g2) \<le> 0 then trigger_quiz g2 else g2))
     else (e1, g))"

fun enemy_scan :: "real \<Rightarrow> enemy list \<Rightarrow> game \<Rightarrow> enemy list \<times> game" where
  "enemy_scan sf [] g = ([], g)"
| "enemy_scan sf (e # es) g =
    (case enemy_step sf e g of (e', g1) \<Rightarrow>
     case enemy_scan sf es g1 of (es', g2) \<Rightarrow> (e' # es', g2))"

definition resolve_enemy_collisions :: "real \<Rightarrow> game \<Rightarrow> game" where
  "resolve_enemy_collisions sf g =
    (case enemy_scan sf (enemies g) g of (es, g') \<Rightarrow> g'\<lparr>enemies := es\<rparr>)"

definition apply_bonus :: "bonus \<Rightarrow> game \<Rightarrow> game" where
  "apply_bonus b g =
    (case bo_kind b of
       B_CELL \<Rightarrow>
         g\<lparr>player := (player g)\<lparr>energy := clamp (energy (player g) + ENERGY_FROM_CELL) 0 100\<rparr>\<rparr>
     | B_LED \<Rightarrow> g\<lparr>player := (player g)\<lparr>drain_slow := DUR_LED\<rparr>\<rparr>
     | B_SHIELD \<Rightarrow> g\<lparr>player := (player g)\<lparr>shield := DUR_SHIELD\<rparr>\<rparr>
     | B_JET \<Rightarrow> g\<lparr>player := (player g)\<lparr>jet := DUR_JET\<rparr>\<rparr>
     | B_SPRING \<Rightarrow> g\<lparr>player := (player g)\<lparr>vel_y := PLAYER_JUMP_VEL * 1.55\<rparr>\<rparr>)"

text \<open>The body of the loop of \<^verbatim>\<open>resolve_bonus_pickups\<close> for one bonus: the
  bonus if it stays (\<open>None\<close> when it is picked up and killed), and the game.\<close>

definition bonus_step :: "bonus \<Rightarrow> game \<Rightarrow> bonus option \<times> game" where
  "bonus_step b g =
    (let b1 = Bonus_update b in
     if colliderect (rect (player g)) (bo_rect b1) then (None, apply_bonus b1 g)
     else (Some b1, g))"

fun bonus_scan :: "bonus list \<Rightarrow> game \<Rightarrow> bonus list \<times> game" where
  "bonus_scan [] g = ([], g)"
| "bonus_scan (b # bs) g =
    (case bonus_step b g of (r, g1) \<Rightarrow>
     case bonus_scan bs g1 of (bs', g2) \<Rightarrow>
       ((case r of None \<Rightarrow> bs' | Some b1 \<Rightarrow> b1 # bs'), g2))"

definition resolve_bonus_pickups :: "game \<Rightarrow> game" where
  "resolve_bonus_pickups g =
    (case bonus_scan (bonuses g) g of (bs, g') \<Rightarrow> g'\<lparr>bonuses := bs\<rparr>)"

subsubsection \<open>The spawn loop\<close>

text \<open>
  The loop of \<^verbatim>\<open>spawn_next\<close>. The source reads the speed factor once, before the
  loop; the loop never writes the world's score, so reading it in each round gives the
  same number. Each round lowers the spawn frontier by at least 60, which ends the loop:
  the termination proof is the first of the properties below.
\<close>

function spawn_loop :: "game \<Rightarrow> game" where
  "spawn_loop g =
    (if spawn_y (world g) > - HEIGHT then spawn_loop (spawn_one (speed_factor (world g)) g)
     else g)"
  by pat_completeness auto

text \<open>The cap on the number of platforms: sorted by top edge, largest first (a stable
  sort), every platform after the first 22 is killed.\<close>

definition cap_platforms :: "platform list \<Rightarrow> platform list" where
  "cap_platforms ps =
    (if length ps > MAX_PLATFORMS_ON_SCREEN then
       (let low = sort_key (\<lambda>s. - rect_top (plat_rect s)) ps;
            killed = map pid (drop MAX_PLATFORMS_ON_SCREEN low)
        in filter (\<lambda>s. pid s \<notin> set killed) ps)
     else ps)"

definition spawn_next :: "game \<Rightarrow> game" where
  "spawn_next g = (let g1 = spawn_loop g in g1\<lparr>platforms := cap_platforms (platforms g1)\<rparr>)"

subsubsection \<open>Update\<close>

text \<open>The PLAY branch of \<^verbatim>\<open>Game.update\<close>, one definition for each step.\<close>

definition sync_score :: "game \<Rightarrow> game" where
  "sync_score g = g\<lparr>world := (world g)\<lparr>wscore := score g\<rparr>\<rparr>"

definition accelerate :: "real \<Rightarrow> game \<Rightarrow> game" where
  "accelerate sf g =
    g\<lparr>player := (player g)\<lparr>vel_y := vel_y (player g) + GRAVITY * (sf - 1.0)\<rparr>\<rparr>"

definition update_platforms :: "real \<Rightarrow> game \<Rightarrow> game" where
  "update_platforms sf g = g\<lparr>platforms := map (Platform_update sf) (platforms g)\<rparr>"

definition speed_override :: "keys \<Rightarrow> int option \<Rightarrow> real \<Rightarrow> player \<Rightarrow> player" where
  "speed_override ks tx move_speed_current p =
    (case tx of
       Some t \<Rightarrow>
         if t < WIDTH div 2 then p\<lparr>vel_x := - move_speed_current\<rparr>
         else p\<lparr>vel_x := move_speed_current\<rparr>
     | None \<Rightarrow>
         if key_left ks then p\<lparr>vel_x := - move_speed_current\<rparr>
         else if key_right ks then p\<lparr>vel_x := move_speed_current\<rparr>
         else p)"

definition update_player :: "keys \<Rightarrow> real \<Rightarrow> game \<Rightarrow> game" where
  "update_player ks sf g =
    g\<lparr>player := speed_override ks (touch_x g) (PLAYER_MOVE_SPEED * sf)
                  (Player_update ks (touch_x g) (player g))\<rparr>"

definition camera :: "game \<Rightarrow> game" where
  "camera g =
    (if rect_top (rect (player g)) \<le> SCROLL_TRIGGER_Y then
       (let dy = SCROLL_TRIGGER_Y - rect_top (rect (player g))
        in g\<lparr>player := (player g)\<lparr>rect := set_top SCROLL_TRIGGER_Y (rect (player g))\<rparr>,
             platforms := map (\<lambda>s. s\<lparr>plat_rect := move_y dy (plat_rect s)\<rparr>) (platforms g),
             enemies := map (\<lambda>s. s\<lparr>en_rect := move_y dy (en_rect s)\<rparr>) (enemies g),
             bonuses := map (\<lambda>s. s\<lparr>bo_rect := move_y dy (bo_rect s)\<rparr>) (bonuses g),
             world := (world g)\<lparr>spawn_y := spawn_y (world g) + dy\<rparr>,
             ascended_px := ascended_px g + dy\<rparr>)
     else g)"

definition cleanup :: "game \<Rightarrow> game" where
  "cleanup g =
    g\<lparr>platforms := filter (\<lambda>s. \<not> rect_top (plat_rect s) > HEIGHT + 120) (platforms g),
      enemies := filter (\<lambda>s. \<not> rect_top (en_rect s) > HEIGHT + 120) (enemies g),
      bonuses := filter (\<lambda>s. \<not> rect_top (bo_rect s) > HEIGHT + 120) (bonuses g)\<rparr>"

definition fell_off :: "game \<Rightarrow> bool" where
  "fell_off g = (rect_top (rect (player g)) > HEIGHT + 60)"

definition fall_check :: "game \<Rightarrow> game" where
  "fall_check g =
    (if fell_off g then trigger_quiz (g\<lparr>player := (player g)\<lparr>energy := 0.0\<rparr>\<rparr>) else g)"

definition update_score :: "game \<Rightarrow> game" where
  "update_score g =
    (let s = max (score g) (py_int (real_of_int (ascended_px g) * 0.06));
         g1 = g\<lparr>score := s, player := (player g)\<lparr>pscore := s\<rparr>\<rparr>
     in if score g1 > high_score g1 then g1\<lparr>high_score := score g1\<rparr> else g1)"

definition reset_touch :: "game \<Rightarrow> game" where
  "reset_touch g = g\<lparr>touch_x := None\<rparr>"

definition update_play :: "keys \<Rightarrow> game \<Rightarrow> game" where
  "update_play ks g =
    (let g1 = sync_score g;
         sf = speed_factor (world g1);
         g2 = update_player ks sf (update_platforms sf (accelerate sf g1));
         g3 = spawn_next (camera g2);
         g4 = resolve_bonus_pickups
                (resolve_enemy_collisions sf (resolve_platform_collisions sf g3))
     in reset_touch (update_score (fall_check (cleanup g4))))"

definition update_quiz :: "game \<Rightarrow> game" where
  "update_quiz g =
    (let g1 = g\<lparr>quiz := QuizUI_update (quiz g)\<rparr> in
     if feedback (quiz g1) \<noteq> FB_EMPTY \<and> feedback_timer (quiz g1) = 0
     then resolve_quiz_result (feedback (quiz g1) = FB_CORRECT) g1
     else g1)"

definition update :: "keys \<Rightarrow> game \<Rightarrow> game" where
  "update ks g =
    (case gstate g of
       STATE_MENU \<Rightarrow> g
     | STATE_PAUSE \<Rightarrow> g
     | STATE_QUIZ \<Rightarrow> update_quiz g
     | STATE_GAMEOVER \<Rightarrow> g
     | STATE_PLAY \<Rightarrow> update_play ks g)"

subsection \<open>Notions used by the statements\<close>

text \<open>The platform at which the landing loop stops, if any: the first platform of the
  list that is active and passes the landing test.\<close>

definition first_landing :: "player \<Rightarrow> platform list \<Rightarrow> platform option" where
  "first_landing pl ps = List.find (\<lambda>p. active p \<and> lands_on pl p) ps"

text \<open>The part of the game that spawning never writes.\<close>

definition core :: "game \<Rightarrow> game_state \<times> quiz_ui \<times> player \<times> int \<times> int \<times> int \<times> int option" where
  "core g = (gstate g, quiz g, player g, high_score g, score g, ascended_px g, touch_x g)"

text \<open>The energy invariant, and the operations on the player's energy as a datatype, so
  that a statement can range over every sequence of them: a whole tick of the game, the
  player's own update, an enemy hit, a landing on a platform, a bonus pickup, and the
  resolution of a quiz. \<open>states\<close> lists the game after each operation of a sequence.\<close>

definition energy_ok :: "game \<Rightarrow> bool" where
  "energy_ok g = (0 \<le> energy (player g) \<and> energy (player g) \<le> 100)"

datatype op =
    OP_TICK keys
  | OP_UPDATE keys "int option"
  | OP_ENEMY_HIT
  | OP_LAND real platform
  | OP_BONUS bonus
  | OP_QUIZ_RESULT bool

fun apply_op :: "op \<Rightarrow> game \<Rightarrow> game" where
  "apply_op (OP_TICK ks) g = update ks g"
| "apply_op (OP_UPDATE ks tx) g = g\<lparr>player := Player_update ks tx (player g)\<rparr>"
| "apply_op OP_ENEMY_HIT g = g\<lparr>player := take_enemy_hit (player g)\<rparr>"
| "apply_op (OP_LAND sf p) g = land sf p g"
| "apply_op (OP_BONUS b) g = apply_bonus b g"
| "apply_op (OP_QUIZ_RESULT c) g = resolve_quiz_result c g"

fun states :: "op list \<Rightarrow> game \<Rightarrow> game list" where
  "states [] g = []"
| "states (x # xs) g = apply_op x g # states xs (apply_op x g)"

text \<open>The score that an ascended distance gives, \<^verbatim>\<open>int(ascended_px * 0.06)\<close>; the
  invariant of a PLAY tick after the camera step (the distance is fixed, and the score is
  the one of the tick's start or already raised); a run of ticks, one key state for
  each.\<close>

definition distance_score :: "int \<Rightarrow> int" where
  "distance_score a = py_int (real_of_int a * 0.06)"

definition score_step :: "int \<Rightarrow> int \<Rightarrow> game \<Rightarrow> bool" where
  "score_step s a h =
    (ascended_px h = a \<and> (score h = s \<or> score h = max s (distance_score a)))"

fun run :: "keys list \<Rightarrow> game \<Rightarrow> game" where
  "run [] g = g"
| "run (k # ks) g = run ks (update k g)"

text \<open>
  A PLAY tick in two cuts: the game as the enemy loop finds it, and the game as the fall
  check finds it. An enemy fires when its box, after its own move, overlaps the player's
  and the hit leaves the energy at zero or below (the energy was zero already, or the hit
  took the rest); \<open>enemy_triggers\<close> follows the enemy loop and says whether any enemy
  fires. \<open>life_loss\<close> is the event of the tick: an enemy fires or the player has fallen
  below the viewport. A quiet run is a run of ticks without the event. \<open>kept\<close> and
  \<open>lost\<close> describe state and lives after a part of a tick.
\<close>

definition tick_speed :: "game \<Rightarrow> real" where
  "tick_speed g = speed_factor (world (sync_score g))"

definition before_enemies :: "keys \<Rightarrow> game \<Rightarrow> game" where
  "before_enemies ks g =
    (let sf = tick_speed g in
     resolve_platform_collisions sf (spawn_next (camera
       (update_player ks sf (update_platforms sf (accelerate sf (sync_score g)))))))"

definition before_fall :: "keys \<Rightarrow> game \<Rightarrow> game" where
  "before_fall ks g =
    cleanup (resolve_bonus_pickups (resolve_enemy_collisions (tick_speed g) (before_enemies ks g)))"

definition fires :: "real \<Rightarrow> enemy \<Rightarrow> game \<Rightarrow> bool" where
  "fires sf e g =
    (colliderect (rect (player g)) (en_rect (Enemy_update (player g) sf e))
     \<and> energy (take_enemy_hit (player g)) \<le> 0)"

fun enemy_triggers :: "real \<Rightarrow> enemy list \<Rightarrow> game \<Rightarrow> bool" where
  "enemy_triggers sf [] g = False"
| "enemy_triggers sf (e # es) g =
    (fires sf e g \<or> enemy_triggers sf es (snd (enemy_step sf e g)))"

definition life_loss :: "keys \<Rightarrow> game \<Rightarrow> bool" where
  "life_loss ks g =
    (enemy_triggers (tick_speed g) (enemies (before_enemies ks g)) (before_enemies ks g)
     \<or> fell_off (before_fall ks g))"

fun quiet_run :: "keys list \<Rightarrow> game \<Rightarrow> bool" where
  "quiet_run [] g = True"
| "quiet_run (k # ks) g = (\<not> life_loss k g \<and> quiet_run ks (update k g))"

definition kept :: "game_state \<Rightarrow> int \<Rightarrow> game \<Rightarrow> bool" where
  "kept s l h = (gstate h = s \<and> lives (player h) = l)"

definition lost :: "int \<Rightarrow> game \<Rightarrow> bool" where
  "lost l h = ((gstate h = STATE_QUIZ \<or> gstate h = STATE_GAMEOVER) \<and> lives (player h) < l)"

subsection \<open>Concrete states for the examples\<close>

definition zero_rng :: rng where
  "zero_rng = \<lparr>tape = (\<lambda>_. 0), rpos = 0\<rparr>"

definition no_keys :: keys where
  "no_keys = \<lparr>key_left = False, key_right = False\<rparr>"

text \<open>A game in the PLAY state with the given platforms and player, no enemy, no bonus,
  and the spawn frontier at the top, where the spawn loop leaves it.\<close>

definition scene :: "platform list \<Rightarrow> player \<Rightarrow> game" where
  "scene ps pl =
    \<lparr>gstate = STATE_PLAY,
     quiz = \<lparr>selected = 0, cur = None, feedback = FB_EMPTY, feedback_timer = 0\<rparr>,
     world = \<lparr>spawn_y = - HEIGHT, world_rng = zero_rng, wscore = 0\<rparr>,
     platforms = ps, enemies = [], bonuses = [],
     player = pl, high_score = 0, score = 0, ascended_px = 0,
     touch_x = None, global_rng = zero_rng, next_pid = length ps\<rparr>"

text \<open>The player of a new run, as \<^verbatim>\<open>init_run\<close> places it.\<close>

definition start_player :: player where
  "start_player = new_player (WIDTH div 2) (HEIGHT - 140) 2"

text \<open>A run that has climbed 4000 pixels: at the start of a tick, and after the score
  step of that tick.\<close>

definition climbing :: game where
  "climbing = (scene [] start_player)\<lparr>ascended_px := 4000\<rparr>"

definition climbed_4000 :: game where
  "climbed_4000 = update_score climbing"

text \<open>A player on the last life, and one who has landed on a platform and then lost
  all energy.\<close>

definition last_life :: game where
  "last_life = scene [] (start_player\<lparr>lives := 0\<rparr>)"

definition base_platform :: platform where
  "base_platform = new_platform 0 178 640 P_NORMAL 0"

definition safe_player :: player where
  "safe_player = start_player\<lparr>last_safe_platform := Some 0, energy := 0, lives := 1\<rparr>"

text \<open>A player that falls onto a platform at (178, 640), the same player on the way
  up, platforms of several kinds at that place, and a run at score 4000.\<close>

definition falling_player :: player where
  "falling_player =
    start_player\<lparr>rect := \<lparr>rx = 205, ry = 595, rw = 50, rh = 50\<rparr>,
                 prev_rect := \<lparr>rx = 205, ry = 585, rw = 50, rh = 50\<rparr>,
                 vel_y := 10, energy := 50\<rparr>"

definition rising_player :: player where
  "rising_player = falling_player\<lparr>vel_y := - 14\<rparr>"

definition hydro_platform :: platform where
  "hydro_platform = new_platform 0 178 640 P_HYDRO 0"

definition breaking_platform :: platform where
  "breaking_platform = new_platform 0 178 640 P_BREAKING 0"

definition disappearing_platform :: platform where
  "disappearing_platform = new_platform 0 178 640 P_DISAPPEARING 0"

definition late_game :: "platform list \<Rightarrow> player \<Rightarrow> game" where
  "late_game ps pl = (scene ps pl)\<lparr>score := 4000, ascended_px := 66667\<rparr>"

text \<open>The breaking platform after a landing.\<close>

definition broken :: platform where
  "broken = breaking_platform\<lparr>active := False, fade := 0\<rparr>"

text \<open>The disappearing platform after a landing, at a given fade.\<close>

definition fading :: "real \<Rightarrow> platform" where
  "fading f = disappearing_platform\<lparr>active := False, fade := f\<rparr>"

text \<open>A player with no energy in free fall among the given enemies, with no platform:
  the previous top edge, the top edge and the vertical velocity. A chaser that hovers on
  the player's column.\<close>

definition drifting :: "enemy list \<Rightarrow> int \<Rightarrow> int \<Rightarrow> real \<Rightarrow> game" where
  "drifting es y0 y v =
    (scene [] (start_player\<lparr>rect := \<lparr>rx = 205, ry = y, rw = 50, rh = 50\<rparr>,
                             prev_rect := \<lparr>rx = 205, ry = y0, rw = 50, rh = 50\<rparr>,
                             vel_y := v, energy := 0\<rparr>))\<lparr>enemies := es\<rparr>"

definition chaser :: enemy where
  "chaser = \<lparr>en_kind = E_CHASER, en_rect = \<lparr>rx = 212, ry = 562, rw = 36, rh = 36\<rparr>,
             en_phase = 0\<rparr>"

section \<open>Properties\<close>

subsection \<open>Termination of the spawn loop\<close>

lemma clamp_bounds: "lo \<le> hi \<Longrightarrow> lo \<le> clamp v lo hi \<and> clamp v lo hi \<le> hi"
  by (simp add: clamp_def)

lemma progress_factor_bounds: "0 \<le> progress_factor w \<and> progress_factor w \<le> 1"
  using clamp_bounds [of "0::real" 1] by (simp add: progress_factor_def)

lemma speed_factor_bounds: "1 \<le> speed_factor w \<and> speed_factor w \<le> 3 / 2"
  using progress_factor_bounds [of w] by (simp add: speed_factor_def)

lemma randint_lower: "randint a b r = (v, r') \<Longrightarrow> a \<le> v"
  by (auto simp: randint_def next_raw_def)

lemma py_int_lower: "real_of_int k \<le> x \<Longrightarrow> 0 \<le> k \<Longrightarrow> k \<le> py_int x"
  by (simp add: py_int_def le_floor_iff)

lemma min_gap_lower: "60 \<le> py_int (real_of_int SPAWN_MIN_GAP / speed_factor w)"
proof -
  have b: "1 \<le> speed_factor w" "speed_factor w \<le> 3 / 2"
    using speed_factor_bounds [of w] by simp_all
  then have "60 * speed_factor w \<le> 90" by simp
  with b have "60 \<le> 90 / speed_factor w"
    by (simp add: pos_le_divide_eq)
  then show ?thesis
    by (intro py_int_lower) (simp_all add: SPAWN_MIN_GAP_def)
qed

lemma choose_platform_type_world:
  "choose_platform_type w = (k, w') \<Longrightarrow> spawn_y w' = spawn_y w \<and> wscore w' = wscore w"
  by (auto simp: choose_platform_type_def Let_def split: prod.splits)

lemma choose_enemy_world:
  "choose_enemy w = (k, w') \<Longrightarrow> spawn_y w' = spawn_y w \<and> wscore w' = wscore w"
  by (auto simp: choose_enemy_def Let_def split: prod.splits if_splits)

lemma choose_bonus_world:
  "choose_bonus w = (k, w') \<Longrightarrow> spawn_y w' = spawn_y w \<and> wscore w' = wscore w"
  by (auto simp: choose_bonus_def Let_def split: prod.splits if_splits)

lemma spawn_platform_world:
  assumes "spawn_platform (speed_factor (world g)) g = (p, g')"
  shows "spawn_y (world g') \<le> spawn_y (world g) - 60 \<and> wscore (world g') = wscore (world g)"
  using assms min_gap_lower [of "world g"]
  by (auto simp: spawn_platform_def g_randint_def g_random_def Let_def
      split: prod.splits dest!: choose_platform_type_world randint_lower)

lemma spawn_spring_world: "world (spawn_spring p g) = world g"
  by (simp add: spawn_spring_def g_random_def split: prod.splits)

lemma spawn_enemy_world:
  "spawn_y (world (spawn_enemy p g)) = spawn_y (world g)
   \<and> wscore (world (spawn_enemy p g)) = wscore (world g)"
  by (auto simp: spawn_enemy_def g_randint_def g_random_def Let_def
      split: prod.splits option.splits dest!: choose_enemy_world)

lemma spawn_bonus_world:
  "spawn_y (world (spawn_bonus p g)) = spawn_y (world g)
   \<and> wscore (world (spawn_bonus p g)) = wscore (world g)"
  by (auto simp: spawn_bonus_def g_randint_def g_random_def Let_def
      split: prod.splits option.splits dest!: choose_bonus_world)

lemma spawn_one_world:
  "spawn_y (world (spawn_one (speed_factor (world g)) g)) \<le> spawn_y (world g) - 60
   \<and> wscore (world (spawn_one (speed_factor (world g)) g)) = wscore (world g)"
  using spawn_platform_world [of g]
  by (auto simp: spawn_one_def spawn_bonus_world spawn_enemy_world spawn_spring_world
      split: prod.splits)

termination spawn_loop
proof (relation "measure (\<lambda>g. nat (spawn_y (world g) + HEIGHT))")
  show "wf (measure (\<lambda>g. nat (spawn_y (world g) + HEIGHT)))" by simp
next
  fix g :: game
  assume "- HEIGHT < spawn_y (world g)"
  with spawn_one_world [of g]
  show "(spawn_one (speed_factor (world g)) g, g)
          \<in> measure (\<lambda>g. nat (spawn_y (world g) + HEIGHT))"
    by simp
qed

declare spawn_loop.simps [simp del]

subsection \<open>Arithmetic helpers\<close>

lemma py_int_of_int [simp]: "py_int (real_of_int k) = k"
  by (simp add: py_int_def)

lemma py_int_numeral [simp]: "py_int (numeral k) = numeral k"
  by (simp add: py_int_def)

lemma sync_score_wscore [simp]: "wscore (world (sync_score g)) = score g"
  by (simp add: sync_score_def)

subsection \<open>Progress and speed factor\<close>

text \<open>
  C1 (amended). The world's score is the game's score, copied at the start of each PLAY
  tick, and the progress factor is \<open>clamp(score / 4000, 0, 1)\<close>: it is driven by the
  score, not by the ascended distance. The speed factor is \<open>1 + 0.5 * progress\<close>.
  At score 0 the progress factor is 0 and the speed factor 1.0; at score 4000 or more
  the progress factor is 1 and the speed factor 1.5.
\<close>

theorem progress_speed_from_score:
  "progress_factor (world (sync_score g)) = clamp (real_of_int (score g) / 4000) 0 1
   \<and> speed_factor (world (sync_score g)) = 1 + 0.5 * progress_factor (world (sync_score g))
   \<and> (score g \<le> 0 \<longrightarrow> progress_factor (world (sync_score g)) = 0
                        \<and> speed_factor (world (sync_score g)) = 1)
   \<and> (4000 \<le> score g \<longrightarrow> progress_factor (world (sync_score g)) = 1
                        \<and> speed_factor (world (sync_score g)) = 1.5)"
  by (simp add: progress_factor_def speed_factor_def clamp_def min_def max_def)

theorem progress_speed_from_score_witness:
  "score (scene [] start_player) \<le> 0
   \<and> progress_factor (world (sync_score (scene [] start_player))) = 0
   \<and> speed_factor (world (sync_score (scene [] start_player))) = 1
   \<and> 4000 \<le> score ((scene [] start_player)\<lparr>score := 4000\<rparr>)
   \<and> progress_factor (world (sync_score ((scene [] start_player)\<lparr>score := 4000\<rparr>))) = 1
   \<and> speed_factor (world (sync_score ((scene [] start_player)\<lparr>score := 4000\<rparr>))) = 1.5"
proof -
  have a: "score (scene [] start_player) \<le> 0"
    by (simp add: scene_def)
  have b: "4000 \<le> score ((scene [] start_player)\<lparr>score := 4000\<rparr>)"
    by simp
  show ?thesis
    using a b progress_speed_from_score [of "scene [] start_player"]
      progress_speed_from_score [of "(scene [] start_player)\<lparr>score := 4000\<rparr>"]
    by blast
qed

text \<open>
  The claim as written fails: after 4000 ascended pixels the score is 240, so the
  progress factor of the next tick is 240 / 4000 = 0.06 and the speed factor 1.03,
  where the claim gives 1 and 1.5.
\<close>

lemma climbed_4000_score: "score climbed_4000 = 240 \<and> ascended_px climbed_4000 = 4000"
  by (simp add: climbed_4000_def climbing_def update_score_def scene_def Let_def)

theorem progress_by_distance_counterexample:
  "ascended_px climbed_4000 = 4000
   \<and> clamp (real_of_int (ascended_px climbed_4000) / 4000) 0 1 = (1::real)
   \<and> progress_factor (world (sync_score climbed_4000)) = 3 / 50
   \<and> speed_factor (world (sync_score climbed_4000)) = 103 / 100"
  by (simp add: climbed_4000_score progress_factor_def speed_factor_def clamp_def)

subsection \<open>Quiz entry and quiz resolution\<close>

lemma game_over_player [simp]: "player (game_over g) = player g"
  by (simp add: game_over_def Let_def)

lemma game_over_gstate [simp]: "gstate (game_over g) = STATE_GAMEOVER"
  by (simp add: game_over_def Let_def)

lemma game_over_quiz [simp]: "quiz (game_over g) = quiz g"
  by (simp add: game_over_def Let_def)

lemma game_over_platforms [simp]: "platforms (game_over g) = platforms g"
  by (simp add: game_over_def Let_def)

lemma trigger_quiz_player:
  "player (trigger_quiz g) = (player g)\<lparr>lives := lives (player g) - 1\<rparr>"
  by (simp add: trigger_quiz_def Let_def split: prod.splits)

lemma length_QUIZ: "length QUIZ = 30"
  by (simp add: QUIZ_def)

lemma choice_QUIZ_mem: "fst (choice QUIZ r) \<in> set QUIZ"
  by (simp add: choice_def next_raw_def length_QUIZ)

text \<open>
  C3. \<^verbatim>\<open>trigger_quiz\<close> takes one life, once. If the lives are then negative (that is
  \<open>- 1\<close> when there were none left) the game goes to GAMEOVER and the quiz is not
  touched; otherwise a question of the bank is drawn at random, it becomes the current
  question, and the game goes to QUIZ.
\<close>

theorem trigger_quiz_outcome:
  "lives (player (trigger_quiz g)) = lives (player g) - 1
   \<and> (lives (player g) - 1 < 0 \<longrightarrow>
        gstate (trigger_quiz g) = STATE_GAMEOVER \<and> quiz (trigger_quiz g) = quiz g)
   \<and> (lives (player g) = 0 \<longrightarrow> lives (player (trigger_quiz g)) = - 1)
   \<and> (0 \<le> lives (player g) - 1 \<longrightarrow>
        gstate (trigger_quiz g) = STATE_QUIZ
        \<and> cur (quiz (trigger_quiz g)) = Some (fst (choice QUIZ (global_rng g)))
        \<and> fst (choice QUIZ (global_rng g)) \<in> set QUIZ)"
  using choice_QUIZ_mem [of "global_rng g"]
  by (simp add: trigger_quiz_def Let_def pick_def split: prod.splits)

theorem trigger_quiz_outcome_witness:
  "lives (player last_life) = 0
   \<and> lives (player (trigger_quiz last_life)) = - 1
   \<and> gstate (trigger_quiz last_life) = STATE_GAMEOVER
   \<and> 0 \<le> lives (player (scene [] start_player)) - 1
   \<and> gstate (trigger_quiz (scene [] start_player)) = STATE_QUIZ
   \<and> cur (quiz (trigger_quiz (scene [] start_player))) = Some \<lparr>q_index = 0, ans = 2\<rparr>"
proof -
  have a: "lives (player last_life) = 0"
    by (simp add: last_life_def scene_def)
  have b: "lives (player (scene [] start_player)) = 2"
    by (simp add: scene_def start_player_def new_player_def)
  have c: "fst (choice QUIZ (global_rng (scene [] start_player))) = \<lparr>q_index = 0, ans = 2\<rparr>"
    by (simp add: scene_def choice_def next_raw_def zero_rng_def QUIZ_def)
  show ?thesis
    using a b c trigger_quiz_outcome [of last_life]
      trigger_quiz_outcome [of "scene [] start_player"]
    by simp
qed

lemma revive_on_safe_lives [simp]: "lives (revive_on_safe ps p) = lives p"
  by (simp add: revive_on_safe_def Let_def)

lemma DUR_INVINCIBLE_eq: "DUR_INVINCIBLE = 120"
  by (simp add: DUR_INVINCIBLE_def FPS_def)

lemma rect_centery_set_center: "rect_centery (set_center cx cy r) = cy"
  by (simp add: rect_centery_def set_center_def)

lemma rect_centerx_set_center: "rect_centerx (set_center cx cy r) = cx"
  by (simp add: rect_centerx_def set_center_def)

text \<open>How an answer reaches the resolution: confirming sets the feedback and a timer of
  54 frames, and the QUIZ tick in which the timer reaches zero resolves the quiz, with
  the right answer's feedback as a right answer and the other as a wrong one.\<close>

lemma handle_confirm:
  "cur q = Some c \<Longrightarrow>
     handle QK_CONFIRM q
       = Some ((True, selected q = ans c),
               q\<lparr>feedback := (if selected q = ans c then FB_CORRECT else FB_WRONG),
                 feedback_timer := 54\<rparr>)"
  by (simp add: handle_def Let_def FPS_def py_int_def)

lemma update_quiz_waits:
  "1 < feedback_timer (quiz g) \<Longrightarrow>
     update_quiz g = g\<lparr>quiz := (quiz g)\<lparr>feedback_timer := feedback_timer (quiz g) - 1\<rparr>\<rparr>"
  by (simp add: update_quiz_def QuizUI_update_def Let_def)

lemma update_quiz_resolves:
  "feedback (quiz g) \<noteq> FB_EMPTY \<Longrightarrow> feedback_timer (quiz g) = 1 \<Longrightarrow>
     update_quiz g
       = resolve_quiz_result (feedback (quiz g) = FB_CORRECT)
           (g\<lparr>quiz := (quiz g)\<lparr>feedback_timer := 0\<rparr>\<rparr>)"
  by (simp add: update_quiz_def QuizUI_update_def Let_def)

text \<open>
  C4. Resolving the quiz with a right answer gives one life back, so that with the life
  taken at the quiz's entry the lives are what they were before the trigger; the game
  returns to PLAY, and the player is revived: invincible for 120 frames, at rest, with
  at least 55 energy, centred on the screen's middle column and, when the last safe
  platform is still alive, with the centre 27 pixels above that platform's top (the
  bottom edge 2 pixels above it), otherwise at the screen's middle row. Resolving with a
  wrong answer goes to GAMEOVER and leaves the lives as the trigger left them.
\<close>

theorem resolve_quiz_result_outcome:
  "lives (player (resolve_quiz_result True g)) = lives (player g) + 1
   \<and> lives (player (resolve_quiz_result True (trigger_quiz g))) = lives (player g)
   \<and> gstate (resolve_quiz_result True g) = STATE_PLAY
   \<and> invincible (player (resolve_quiz_result True g)) = 120
   \<and> vel_x (player (resolve_quiz_result True g)) = 0
   \<and> vel_y (player (resolve_quiz_result True g)) = 0
   \<and> energy (player (resolve_quiz_result True g)) = max 55 (energy (player g))
   \<and> rect_centerx (rect (player (resolve_quiz_result True g))) = WIDTH div 2
   \<and> (\<forall>i pl. last_safe_platform (player g) = Some i \<and> find_platform i (platforms g) = Some pl
        \<longrightarrow> rect_centery (rect (player (resolve_quiz_result True g)))
              = rect_top (plat_rect pl) - PLAYER_H div 2 - 2)
   \<and> (last_safe_platform (player g) = None
        \<longrightarrow> rect_centery (rect (player (resolve_quiz_result True g))) = HEIGHT div 2)
   \<and> gstate (resolve_quiz_result False g) = STATE_GAMEOVER
   \<and> lives (player (resolve_quiz_result False g)) = lives (player g)
   \<and> lives (player (resolve_quiz_result False (trigger_quiz g))) = lives (player g) - 1"
  by (simp add: resolve_quiz_result_def Let_def trigger_quiz_player DUR_INVINCIBLE_eq
        rect_centery_set_center rect_centerx_set_center)
     (simp add: revive_on_safe_def Let_def DUR_INVINCIBLE_eq
        rect_centery_set_center rect_centerx_set_center)

theorem resolve_quiz_result_outcome_witness:
  "last_safe_platform (player (scene [base_platform] safe_player)) = Some 0
   \<and> find_platform 0 (platforms (scene [base_platform] safe_player)) = Some base_platform
   \<and> rect_centery (rect (player (resolve_quiz_result True (scene [base_platform] safe_player)))) = 613
   \<and> lives (player (resolve_quiz_result True (scene [base_platform] safe_player))) = 2
   \<and> energy (player (resolve_quiz_result True (scene [base_platform] safe_player))) = 55
   \<and> last_safe_platform (player (scene [] start_player)) = None
   \<and> rect_centery (rect (player (resolve_quiz_result True (scene [] start_player)))) = 360"
proof -
  have a: "last_safe_platform (player (scene [base_platform] safe_player)) = Some 0"
    by (simp add: scene_def safe_player_def)
  have b: "find_platform 0 (platforms (scene [base_platform] safe_player)) = Some base_platform"
    by (simp add: scene_def find_platform_def base_platform_def new_platform_def)
  have c: "last_safe_platform (player (scene [] start_player)) = None"
    by (simp add: scene_def start_player_def new_player_def)
  have d: "rect_top (plat_rect base_platform) = 640"
    by (simp add: base_platform_def new_platform_def rect_top_def)
  have e: "lives (player (scene [base_platform] safe_player)) = 1"
       "energy (player (scene [base_platform] safe_player)) = 0"
    by (simp_all add: scene_def safe_player_def)
  show ?thesis
    using a b c d e resolve_quiz_result_outcome [of "scene [base_platform] safe_player"]
      resolve_quiz_result_outcome [of "scene [] start_player"]
    by (simp add: PLAYER_H_def HEIGHT_def)
qed

subsection \<open>Landing\<close>

lemma land_scan_first:
  "land_scan sf ps g = (case first_landing (player g) ps of None \<Rightarrow> g | Some p \<Rightarrow> land sf p g)"
  by (induction ps) (simp_all add: first_landing_def)

lemma land_scan_filter: "land_scan sf ps g = land_scan sf (filter active ps) g"
  by (induction ps) simp_all

lemma land_scan_inactive: "list_all (\<lambda>p. \<not> active p) ps \<Longrightarrow> land_scan sf ps g = g"
  by (induction ps) simp_all

lemma first_landing_Some:
  "first_landing pl ps = Some p \<Longrightarrow> active p \<and> p \<in> set ps \<and> lands_on pl p"
  by (auto simp: first_landing_def find_Some_iff)

text \<open>
  C6. The collision resolver does nothing at all when the player's vertical velocity is
  negative, so no landing is applied while the player ascends. The landing loop gives the
  same result with the inactive platforms removed from its list, it changes nothing when
  every platform is inactive, and the platform it lands on, if any, is active: an
  inactive platform never triggers a landing.
\<close>

theorem landing_guards:
  "(vel_y (player g) < 0 \<longrightarrow> resolve_platform_collisions sf g = g)
   \<and> land_scan sf ps g = land_scan sf (filter active ps) g
   \<and> (list_all (\<lambda>p. \<not> active p) ps \<longrightarrow> land_scan sf ps g = g)
   \<and> land_scan sf ps g
       = (case first_landing (player g) ps of None \<Rightarrow> g | Some p \<Rightarrow> land sf p g)
   \<and> (\<forall>p. first_landing (player g) ps = Some p \<longrightarrow>
          active p \<and> p \<in> set ps \<and> lands_on (player g) p)"
  using land_scan_first [of sf ps g] land_scan_filter [of sf ps g]
    land_scan_inactive [of ps sf g] first_landing_Some [of "player g" ps]
  by (simp add: resolve_platform_collisions_def)

lemma falling_lands: "lands_on falling_player (new_platform i 178 640 k u)"
  by (simp add: lands_on_def falling_player_def new_platform_def rect_bottom_def rect_top_def
      colliderect_def PLATFORM_W_def PLATFORM_H_def)

theorem landing_guards_witness:
  "vel_y (player (scene [base_platform] rising_player)) < 0
   \<and> resolve_platform_collisions 1 (scene [base_platform] rising_player)
       = scene [base_platform] rising_player
   \<and> list_all (\<lambda>p. \<not> active p) [base_platform\<lparr>active := False\<rparr>]
   \<and> lands_on falling_player (base_platform\<lparr>active := False\<rparr>)
   \<and> land_scan 1 [base_platform\<lparr>active := False\<rparr>]
        (scene [base_platform\<lparr>active := False\<rparr>] falling_player)
       = scene [base_platform\<lparr>active := False\<rparr>] falling_player
   \<and> first_landing (player (scene [base_platform] falling_player)) [base_platform]
       = Some base_platform
   \<and> active base_platform"
proof -
  have a: "vel_y (player (scene [base_platform] rising_player)) < 0"
    by (simp add: scene_def rising_player_def)
  have b: "list_all (\<lambda>p. \<not> active p) [base_platform\<lparr>active := False\<rparr>]"
    by simp
  have c: "lands_on falling_player (base_platform\<lparr>active := False\<rparr>)"
    using falling_lands [of 0 P_NORMAL 0]
    by (simp add: base_platform_def lands_on_def)
  have d: "first_landing (player (scene [base_platform] falling_player)) [base_platform]
             = Some base_platform"
    using falling_lands [of 0 P_NORMAL 0]
    by (simp add: first_landing_def scene_def base_platform_def new_platform_def)
  have t1: "resolve_platform_collisions 1 (scene [base_platform] rising_player)
             = scene [base_platform] rising_player"
    using a landing_guards [of "scene [base_platform] rising_player" 1 "[]"] by blast
  have t2: "land_scan 1 [base_platform\<lparr>active := False\<rparr>]
              (scene [base_platform\<lparr>active := False\<rparr>] falling_player)
            = scene [base_platform\<lparr>active := False\<rparr>] falling_player"
    using b landing_guards [of "scene [base_platform\<lparr>active := False\<rparr>] falling_player" 1
        "[base_platform\<lparr>active := False\<rparr>]"] by blast
  have t3: "active base_platform"
    using d landing_guards [of "scene [base_platform] falling_player" 1 "[base_platform]"]
    by blast
  show ?thesis
    using a b c d t1 t2 t3 by blast
qed

lemma land_hydro:
  "plat_kind p = P_HYDRO \<Longrightarrow>
     vel_y (player (land sf p g)) = PLAYER_JUMP_VEL * 1.07
     \<and> energy (player (land sf p g)) = clamp (energy (player g) + 9) 0 100"
  by (simp add: land_def handle_platform_effect_def Let_def mark_safe_platform_def bounce_def
      ENERGY_FROM_HYDRO_def)

lemma late_game_speed: "speed_factor (world (sync_score (late_game ps pl))) = 3 / 2"
  by (simp add: late_game_def speed_factor_def progress_factor_def clamp_def)

lemma first_landing_falling:
  "first_landing falling_player [new_platform i 178 640 k u] = Some (new_platform i 178 640 k u)"
  using falling_lands [of i k u] by (simp add: first_landing_def new_platform_def)

text \<open>
  C7 (the code departs from the claim). Landing on a hydro platform adds 9 energy, clamped
  to [0, 100], and sets the vertical velocity to \<open>PLAYER_JUMP_VEL * 1.07 = - 14.98\<close>
  whatever the speed factor is: the effect overwrites the bounce, which was scaled by the
  speed factor. At speed factor 1.5 the hydro landing gives \<open>- 14.98\<close>, where the
  claim gives \<open>- 14 * 1.5 * 1.07 = - 22.47\<close> and a normal platform gives \<open>- 21\<close>.
\<close>

theorem hydro_landing_at_full_speed:
  "speed_factor (world (sync_score (late_game [hydro_platform] falling_player))) = 3 / 2
   \<and> vel_y (player (resolve_platform_collisions (3 / 2)
        (late_game [hydro_platform] falling_player))) = - 749 / 50
   \<and> PLAYER_JUMP_VEL * (3 / 2) * 1.07 = - 2247 / 100
   \<and> vel_y (player (resolve_platform_collisions (3 / 2)
        (late_game [base_platform] falling_player))) = - 21
   \<and> energy (player (resolve_platform_collisions (3 / 2)
        (late_game [hydro_platform] falling_player))) = 59"
proof -
  have v: "vel_y falling_player = 10"
          "player (late_game ps falling_player) = falling_player"
          "platforms (late_game ps falling_player) = ps" for ps
    by (simp_all add: late_game_def scene_def) (simp add: falling_player_def)
  have h: "resolve_platform_collisions (3 / 2) (late_game [hydro_platform] falling_player)
           = (let g1 = land (3 / 2) hydro_platform (late_game [hydro_platform] falling_player)
              in g1\<lparr>platforms := fade_out (platforms g1)\<rparr>)"
    using first_landing_falling [of 0 P_HYDRO 0]
    by (simp add: resolve_platform_collisions_def v land_scan_first hydro_platform_def)
  have n: "resolve_platform_collisions (3 / 2) (late_game [base_platform] falling_player)
           = (let g1 = land (3 / 2) base_platform (late_game [base_platform] falling_player)
              in g1\<lparr>platforms := fade_out (platforms g1)\<rparr>)"
    using first_landing_falling [of 0 P_NORMAL 0]
    by (simp add: resolve_platform_collisions_def v land_scan_first base_platform_def)
  have k: "plat_kind hydro_platform = P_HYDRO" "plat_kind base_platform = P_NORMAL"
    by (simp_all add: hydro_platform_def base_platform_def new_platform_def)
  have e: "energy falling_player = 50"
    by (simp add: falling_player_def)
  show ?thesis
    using land_hydro [OF k(1), of "3 / 2" "late_game [hydro_platform] falling_player"]
    by (simp add: late_game_speed h n Let_def v e clamp_def PLAYER_JUMP_VEL_def)
       (simp add: land_def handle_platform_effect_def k Let_def mark_safe_platform_def
          bounce_def PLAYER_JUMP_VEL_def)
qed

subsection \<open>Breaking and disappearing platforms\<close>

lemma find_platform_set_platform:
  "p \<in> set ps \<Longrightarrow> pid p' = pid p \<Longrightarrow> find_platform (pid p) (set_platform p' ps) = Some p'"
  by (induction ps) (auto simp: find_platform_def set_platform_def)

lemma fade_out_keeps:
  "q \<in> set ps \<Longrightarrow> plat_kind q \<noteq> P_DISAPPEARING \<Longrightarrow> q \<in> set (fade_out ps)"
  by (induction ps) (auto simp: Let_def)

lemma fade_out_other_kinds:
  "filter (\<lambda>q. plat_kind q \<noteq> P_DISAPPEARING) (fade_out ps)
     = filter (\<lambda>q. plat_kind q \<noteq> P_DISAPPEARING) ps"
  by (induction ps) (auto simp: Let_def)

lemma land_breaking_platforms:
  "plat_kind p = P_BREAKING \<Longrightarrow>
     platforms (land sf p g) = set_platform (p\<lparr>active := False, fade := 0\<rparr>) (platforms g)"
  by (simp add: land_def handle_platform_effect_def Let_def)

text \<open>
  C8 (amended). Landing on a breaking platform deactivates it at once and sets its fade to
  0 at once: there is no gradual fade-out from 1. The fade-out loop only handles
  disappearing platforms, so the broken platform stays in the group with fade 0, and the
  landing loop never lands on it again.
\<close>

theorem breaking_platform_landing:
  assumes "plat_kind p = P_BREAKING" and "p \<in> set (platforms g)"
  shows "find_platform (pid p) (platforms (land sf p g)) = Some (p\<lparr>active := False, fade := 0\<rparr>)
       \<and> p\<lparr>active := False, fade := 0\<rparr> \<in> set (fade_out (platforms (land sf p g)))
       \<and> (\<forall>ps pl. p\<lparr>active := False, fade := 0\<rparr> \<in> set ps \<longrightarrow>
             p\<lparr>active := False, fade := 0\<rparr> \<in> set (fade_out ps)
             \<and> first_landing pl ps \<noteq> Some (p\<lparr>active := False, fade := 0\<rparr>))"
proof -
  let ?p' = "p\<lparr>active := False, fade := 0\<rparr>"
  have k: "plat_kind ?p' \<noteq> P_DISAPPEARING" using assms(1) by simp
  have f: "find_platform (pid p) (platforms (land sf p g)) = Some ?p'"
    using assms by (simp add: land_breaking_platforms find_platform_set_platform)
  then have m: "?p' \<in> set (platforms (land sf p g))"
    by (auto simp: find_platform_def find_Some_iff)
  have n: "first_landing pl ps \<noteq> Some ?p'" for pl ps
    using first_landing_Some [of pl ps ?p'] by auto
  show ?thesis
    using f m k n fade_out_keeps [of ?p'] by simp
qed

lemma resolve_on_landing:
  "0 < vel_y (player g) \<Longrightarrow> first_landing (player g) (platforms g) = Some p \<Longrightarrow>
     resolve_platform_collisions sf g
       = (land sf p g)\<lparr>platforms := fade_out (platforms (land sf p g))\<rparr>"
  by (simp add: resolve_platform_collisions_def land_scan_first Let_def)

lemma scene_fields:
  "player (scene ps pl) = pl" "platforms (scene ps pl) = ps"
  by (simp_all add: scene_def)

lemma falling_player_vel: "vel_y falling_player = 10"
  by (simp add: falling_player_def)

lemma breaking_landing_tick:
  "platforms (resolve_platform_collisions 1 (scene [breaking_platform] falling_player)) = [broken]"
  using first_landing_falling [of 0 P_BREAKING 0]
  by (simp add: resolve_on_landing scene_fields falling_player_vel breaking_platform_def
        land_breaking_platforms new_platform_def set_platform_def broken_def)

text \<open>
  The claim as written fails: the breaking platform starts with fade 1; after the tick of
  the landing its fade is 0, not 1, and a later tick in which the player falls through
  it leaves it as it is.
\<close>

theorem breaking_fade_counterexample:
  "fade breaking_platform = 1
   \<and> platforms (resolve_platform_collisions 1 (scene [breaking_platform] falling_player))
       = [broken]
   \<and> fade broken = 0 \<and> active broken = False
   \<and> platforms (resolve_platform_collisions 1 (scene [broken] falling_player)) = [broken]"
proof -
  have a: "fade breaking_platform = 1" "fade broken = 0" "active broken = False"
       "plat_kind broken = P_BREAKING"
    by (simp_all add: broken_def breaking_platform_def new_platform_def)
  have b: "platforms (resolve_platform_collisions 1 (scene [broken] falling_player)) = [broken]"
    by (simp add: resolve_platform_collisions_def scene_fields falling_player_vel a Let_def)
  show ?thesis
    using a b breaking_landing_tick by simp
qed

theorem breaking_platform_landing_witness:
  "plat_kind breaking_platform = P_BREAKING
   \<and> breaking_platform \<in> set (platforms (scene [breaking_platform] falling_player))
   \<and> find_platform (pid breaking_platform)
        (platforms (land 1 breaking_platform (scene [breaking_platform] falling_player)))
       = Some broken
   \<and> broken \<in> set [broken]
   \<and> broken \<in> set (fade_out [broken])
   \<and> first_landing falling_player [broken] \<noteq> Some broken"
proof -
  have a: "plat_kind breaking_platform = P_BREAKING"
    by (simp add: breaking_platform_def new_platform_def)
  have b: "breaking_platform \<in> set (platforms (scene [breaking_platform] falling_player))"
    by (simp add: scene_fields)
  have c: "broken \<in> set [broken]" by simp
  show ?thesis
    using a b c
      breaking_platform_landing [OF a b, of 1]
    unfolding broken_def by blast
qed

lemma fading_fields:
  "plat_kind (fading f) = P_DISAPPEARING" "active (fading f) = False" "fade (fading f) = f"
  "pid (fading f) = 0"
  by (simp_all add: fading_def disappearing_platform_def new_platform_def)

lemma fading_update: "(fading f)\<lparr>fade := f'\<rparr> = fading f'"
  by (simp add: fading_def)

lemma fade_out_fading:
  "fade_out [fading f] = (if f \<le> 0.06 then [] else [fading (f - 0.06)])"
  by (simp add: fading_fields Let_def fading_update max_def)

lemma land_disappearing_platforms:
  "plat_kind p = P_DISAPPEARING \<Longrightarrow>
     platforms (land sf p g) = set_platform (p\<lparr>active := False, fade := 0.85\<rparr>) (platforms g)"
  by (simp add: land_def handle_platform_effect_def Let_def)

lemma land_vel_other:
  "plat_kind p \<noteq> P_HYDRO \<Longrightarrow> vel_y (player (land sf p g)) = PLAYER_JUMP_VEL * sf"
  by (cases "plat_kind p")
     (simp_all add: land_def handle_platform_effect_def Let_def mark_safe_platform_def bounce_def)

lemma disappearing_landing_tick:
  "platforms (resolve_platform_collisions 1 (scene [disappearing_platform] falling_player))
     = [fading 0.79]
   \<and> vel_y (player (resolve_platform_collisions 1 (scene [disappearing_platform] falling_player)))
     = - 14"
proof -
  have k: "plat_kind disappearing_platform = P_DISAPPEARING" "pid disappearing_platform = 0"
    by (simp_all add: disappearing_platform_def new_platform_def)
  have f: "first_landing falling_player [disappearing_platform] = Some disappearing_platform"
    using first_landing_falling [of 0 P_DISAPPEARING 0] by (simp add: disappearing_platform_def)
  have s: "set_platform (disappearing_platform\<lparr>active := False, fade := f\<rparr>)
             [disappearing_platform] = [fading f]" for f
    by (simp add: set_platform_def fading_def)
  show ?thesis
    using f
    by (simp del: fade_out.simps add: resolve_on_landing scene_fields falling_player_vel
          land_disappearing_platforms k s fade_out_fading land_vel_other PLAYER_JUMP_VEL_def)
qed

text \<open>
  C9 (the code departs from the claim). Landing on a disappearing platform deactivates it
  and sets its fade to 0.85, and a pass of the fade-out loop lowers the fade by 0.06,
  floored at 0, and removes the platform at 0. But the loop is the second half of
  \<^verbatim>\<open>resolve_platform_collisions\<close>, which returns before it whenever the player's
  vertical velocity is not positive. The first pass runs in the tick of the landing
  (fade 0.79 at its end, the player leaving at \<open>- 14\<close>); in a later tick in which the
  player ascends the fade stays 0.79; only a tick in which the player falls lowers it.
\<close>

theorem disappearing_fade_stalls_while_ascending:
  "platforms (resolve_platform_collisions 1 (scene [disappearing_platform] falling_player))
     = [fading 0.79]
   \<and> vel_y (player (resolve_platform_collisions 1 (scene [disappearing_platform] falling_player)))
     = - 14
   \<and> platforms (resolve_platform_collisions 1 (scene [fading 0.79] rising_player))
     = [fading 0.79]
   \<and> platforms (resolve_platform_collisions 1 (scene [fading 0.79] falling_player))
     = [fading 0.73]"
proof -
  have r: "vel_y rising_player = - 14"
    by (simp add: rising_player_def)
  have a: "platforms (resolve_platform_collisions 1 (scene [fading 0.79] rising_player))
             = [fading 0.79]"
    by (simp add: resolve_platform_collisions_def scene_fields r)
  have b: "platforms (resolve_platform_collisions 1 (scene [fading 0.79] falling_player))
             = [fading 0.73]"
    by (simp del: fade_out.simps add: resolve_platform_collisions_def scene_fields
          falling_player_vel fading_fields fade_out_fading Let_def)
  show ?thesis
    using a b disappearing_landing_tick by simp
qed

text \<open>What the claim has right: 15 passes of the loop remove the platform, and 14 do
  not.\<close>

lemma fade_out_passes:
  "(fade_out ^^ 14) [fading 0.85] = [fading 0.01] \<and> (fade_out ^^ 15) [fading 0.85] = []"
  by (simp del: fade_out.simps add: eval_nat_numeral fade_out_fading)

subsection \<open>Frames of the spawner\<close>

lemma core_fields:
  "core g' = core g \<Longrightarrow>
     gstate g' = gstate g \<and> quiz g' = quiz g \<and> player g' = player g
     \<and> high_score g' = high_score g \<and> score g' = score g
     \<and> ascended_px g' = ascended_px g \<and> touch_x g' = touch_x g"
  by (simp add: core_def)

lemma g_randint_core: "g_randint a b g = (v, g') \<Longrightarrow> core g' = core g"
  by (auto simp: g_randint_def core_def split: prod.splits)

lemma g_random_core: "g_random g = (v, g') \<Longrightarrow> core g' = core g"
  by (auto simp: g_random_def core_def split: prod.splits)

lemma core_world_update [simp]: "core (g\<lparr>world := w\<rparr>) = core g"
  by (simp add: core_def)

lemma core_platforms_update [simp]: "core (g\<lparr>platforms := ps\<rparr>) = core g"
  by (simp add: core_def)

lemma core_enemies_update [simp]: "core (g\<lparr>enemies := es\<rparr>) = core g"
  by (simp add: core_def)

lemma core_bonuses_update [simp]: "core (g\<lparr>bonuses := bs\<rparr>) = core g"
  by (simp add: core_def)

lemma core_next_pid_update [simp]: "core (g\<lparr>next_pid := n\<rparr>) = core g"
  by (simp add: core_def)

lemma core_global_rng_update [simp]: "core (g\<lparr>global_rng := r\<rparr>) = core g"
  by (simp add: core_def)

lemma spawn_platform_core: "spawn_platform sf g = (p, g') \<Longrightarrow> core g' = core g"
  by (auto simp: spawn_platform_def Let_def split: prod.splits
      dest!: g_randint_core g_random_core)

lemma spawn_spring_core: "core (spawn_spring p g) = core g"
  by (auto simp: spawn_spring_def split: prod.splits dest!: g_random_core)

lemma spawn_enemy_core: "core (spawn_enemy p g) = core g"
  by (auto simp: spawn_enemy_def Let_def split: prod.splits option.splits
      dest!: g_randint_core g_random_core)

lemma spawn_bonus_core: "core (spawn_bonus p g) = core g"
  by (auto simp: spawn_bonus_def Let_def split: prod.splits option.splits
      dest!: g_randint_core g_random_core)

lemma spawn_one_core: "core (spawn_one sf g) = core g"
  by (auto simp: spawn_one_def spawn_bonus_core spawn_enemy_core spawn_spring_core
      split: prod.splits dest!: spawn_platform_core)

lemma spawn_loop_core: "core (spawn_loop g) = core g"
proof (induction g rule: spawn_loop.induct)
  case (1 g)
  show ?case
  proof (cases "- HEIGHT < spawn_y (world g)")
    case True
    then have "spawn_loop g = spawn_loop (spawn_one (speed_factor (world g)) g)"
      by (subst spawn_loop.simps) simp
    with 1 True show ?thesis by (simp add: spawn_one_core)
  next
    case False
    then have "spawn_loop g = g" by (subst spawn_loop.simps) simp
    then show ?thesis by simp
  qed
qed

lemma spawn_next_core: "core (spawn_next g) = core g"
  by (simp add: spawn_next_def Let_def spawn_loop_core)

lemma initial_platform_core: "core (snd (initial_platform i (x, g))) = core g"
  by (auto simp: initial_platform_def Let_def split: prod.splits
      dest!: g_randint_core g_random_core)

lemma fold_initial_platform_core:
  "core (snd (fold initial_platform ns (x, g))) = core g"
proof (induction ns arbitrary: x g)
  case Nil
  show ?case by simp
next
  case (Cons n ns)
  obtain x' g' where s: "initial_platform n (x, g) = (x', g')"
    by (cases "initial_platform n (x, g)")
  with initial_platform_core [of n x g] have "core g' = core g" by simp
  with Cons.IH [of x' g'] s show ?case by simp
qed

lemma init_run_core:
  "core (init_run r g)
     = (gstate g, quiz g, new_player (WIDTH div 2) (HEIGHT - 140) 2, high_score g, 0, 0, None)"
proof -
  define g0 where "g0 = g\<lparr>platforms := [], enemies := [], bonuses := [],
                 world := \<lparr>spawn_y = HEIGHT - 120, world_rng = r, wscore = 0\<rparr>,
                 score := 0, ascended_px := 0, touch_x := None,
                 player := new_player (WIDTH div 2) (HEIGHT - 140) 2\<rparr>"
  define ns where "ns = [0..<10::nat]"
  define s1 where
    "s1 = fold initial_platform ns (rect_centerx (rect (player g0)) - PLATFORM_W div 2, g0)"
  define s2 where "s2 = g_random (snd s1)"
  have c0: "core g0
     = (gstate g, quiz g, new_player (WIDTH div 2) (HEIGHT - 140) 2, high_score g, 0, 0, None)"
    by (simp add: g0_def core_def)
  have c1: "core (snd s1) = core g0"
    unfolding s1_def by (rule fold_initial_platform_core)
  have c2: "core (snd s2) = core (snd s1)"
    using g_random_core [of "snd s1" "fst s2" "snd s2"] by (simp add: s2_def)
  have "init_run r g
          = (snd s2)\<lparr>platforms := platforms (snd s2) @
               [new_platform (next_pid (snd s2))
                  (rect_centerx (rect (player (snd s2))) - PLATFORM_W div 2)
                  (rect_bottom (rect (player (snd s2))) + 60) P_NORMAL (fst s2)],
             next_pid := next_pid (snd s2) + 1\<rparr>"
    unfolding init_run_def Let_def g0_def [symmetric] ns_def [symmetric]
      s1_def [symmetric] case_prod_unfold s2_def [symmetric]
    by (rule refl)
  then have "core (init_run r g) = core (snd s2)"
    by simp
  with c0 c1 c2 show ?thesis by simp
qed

subsection \<open>Energy\<close>

lemma clamp_energy: "0 \<le> clamp (v::real) 0 100 \<and> clamp v 0 100 \<le> 100"
  by (simp add: clamp_def)

lemma energy_ok_player: "player g' = player g \<Longrightarrow> energy_ok g' = energy_ok g"
  by (simp add: energy_ok_def)

lemma energy_ok_core: "core g' = core g \<Longrightarrow> energy_ok g' = energy_ok g"
  by (simp add: energy_ok_def core_def)

lemma Player_update_energy:
  "energy (Player_update ks tx p) =
     clamp (energy p - PASSIVE_ENERGY_DRAIN * (if drain_slow p > 0 then 0.6 else 1.0)) 0 100"
  by (simp add: Player_update_def tick_timers_def energy_drain_def apply_vertical_def
      apply_horizontal_def horizontal_control_def Let_def split: option.splits)

lemma Player_update_lives [simp]: "lives (Player_update ks tx p) = lives p"
  by (simp add: Player_update_def tick_timers_def energy_drain_def apply_vertical_def
      apply_horizontal_def horizontal_control_def Let_def split: option.splits)

lemma speed_override_energy [simp]: "energy (speed_override ks tx v p) = energy p"
  by (simp add: speed_override_def split: option.splits)

lemma speed_override_lives [simp]: "lives (speed_override ks tx v p) = lives p"
  by (simp add: speed_override_def split: option.splits)

lemma Player_update_energy_ok: "energy_ok (g\<lparr>player := Player_update ks tx (player g)\<rparr>)"
  using clamp_energy by (simp add: energy_ok_def Player_update_energy)

lemma take_enemy_hit_energy_ok:
  "energy_ok g \<Longrightarrow> energy_ok (g\<lparr>player := take_enemy_hit (player g)\<rparr>)"
  using clamp_energy [of "energy (player g) - ENEMY_HIT_ENERGY_LOSS"]
  by (simp add: energy_ok_def take_enemy_hit_def Let_def)

lemma handle_platform_effect_energy_ok:
  "energy_ok g \<Longrightarrow> energy_ok (handle_platform_effect p g)"
  using clamp_energy
  by (cases "plat_kind p") (simp_all add: handle_platform_effect_def energy_ok_def)

lemma land_energy_ok: "energy_ok g \<Longrightarrow> energy_ok (land sf p g)"
  unfolding land_def Let_def
  by (rule handle_platform_effect_energy_ok)
     (simp add: energy_ok_def mark_safe_platform_def bounce_def)

lemma apply_bonus_energy_ok: "energy_ok g \<Longrightarrow> energy_ok (apply_bonus b g)"
  using clamp_energy by (cases "bo_kind b") (simp_all add: apply_bonus_def energy_ok_def)

lemma trigger_quiz_energy_ok: "energy_ok g \<Longrightarrow> energy_ok (trigger_quiz g)"
  by (simp add: energy_ok_def trigger_quiz_player)

lemma game_over_energy_ok: "energy_ok g \<Longrightarrow> energy_ok (game_over g)"
  by (simp add: energy_ok_def)

lemma resolve_quiz_result_energy_ok: "energy_ok g \<Longrightarrow> energy_ok (resolve_quiz_result c g)"
  by (auto simp: energy_ok_def resolve_quiz_result_def Let_def revive_on_safe_def)

text \<open>An invariant of a loop body is an invariant of the loop.\<close>

lemma land_scan_invariant:
  assumes "\<And>p h. P h \<Longrightarrow> P (land sf p h)" and "P g"
  shows "P (land_scan sf ps g)"
  using assms by (induction ps) simp_all

lemma enemy_scan_invariant:
  assumes "\<And>e h. P h \<Longrightarrow> P (snd (enemy_step sf e h))" and "P g"
  shows "P (snd (enemy_scan sf es g))"
  using assms(2)
proof (induction es arbitrary: g)
  case Nil
  then show ?case by simp
next
  case (Cons e es)
  from assms(1) [OF Cons.prems, of e]
  have "P (snd (enemy_scan sf es (snd (enemy_step sf e g))))"
    by (rule Cons.IH)
  then show ?case
    by (simp add: case_prod_unfold)
qed

lemma bonus_scan_invariant:
  assumes "\<And>b h. P h \<Longrightarrow> P (snd (bonus_step b h))" and "P g"
  shows "P (snd (bonus_scan bs g))"
  using assms(2)
proof (induction bs arbitrary: g)
  case Nil
  then show ?case by simp
next
  case (Cons b bs)
  from assms(1) [OF Cons.prems, of b]
  have "P (snd (bonus_scan bs (snd (bonus_step b g))))"
    by (rule Cons.IH)
  then show ?case
    by (simp add: case_prod_unfold)
qed

lemma enemy_step_energy_ok: "energy_ok g \<Longrightarrow> energy_ok (snd (enemy_step sf e g))"
  using take_enemy_hit_energy_ok [of g]
  by (auto simp: enemy_step_def Let_def energy_ok_def trigger_quiz_player split: prod.splits)

lemma bonus_step_energy_ok: "energy_ok g \<Longrightarrow> energy_ok (snd (bonus_step b g))"
  by (simp add: bonus_step_def Let_def apply_bonus_energy_ok)

lemma resolve_platform_collisions_energy_ok:
  "energy_ok g \<Longrightarrow> energy_ok (resolve_platform_collisions sf g)"
  using land_scan_invariant [of energy_ok sf g "platforms g", OF land_energy_ok]
  by (simp add: resolve_platform_collisions_def Let_def energy_ok_def)

lemma resolve_enemy_collisions_energy_ok:
  "energy_ok g \<Longrightarrow> energy_ok (resolve_enemy_collisions sf g)"
  using enemy_scan_invariant [of energy_ok sf g "enemies g", OF enemy_step_energy_ok]
  by (simp add: resolve_enemy_collisions_def energy_ok_def case_prod_unfold)

lemma resolve_bonus_pickups_energy_ok:
  "energy_ok g \<Longrightarrow> energy_ok (resolve_bonus_pickups g)"
  using bonus_scan_invariant [of energy_ok g "bonuses g", OF bonus_step_energy_ok]
  by (simp add: resolve_bonus_pickups_def energy_ok_def case_prod_unfold)

lemma fall_check_energy_ok: "energy_ok g \<Longrightarrow> energy_ok (fall_check g)"
  by (simp add: fall_check_def energy_ok_def trigger_quiz_player)

lemma update_score_energy_ok: "energy_ok g \<Longrightarrow> energy_ok (update_score g)"
  by (simp add: update_score_def Let_def energy_ok_def)

lemma cleanup_energy_ok: "energy_ok g \<Longrightarrow> energy_ok (cleanup g)"
  by (simp add: cleanup_def energy_ok_def)

lemma reset_touch_energy_ok: "energy_ok g \<Longrightarrow> energy_ok (reset_touch g)"
  by (simp add: reset_touch_def energy_ok_def)

lemma spawn_next_energy_ok: "energy_ok g \<Longrightarrow> energy_ok (spawn_next g)"
  using energy_ok_core [OF spawn_next_core] by simp

lemma camera_energy_ok: "energy_ok g \<Longrightarrow> energy_ok (camera g)"
  by (simp add: camera_def Let_def energy_ok_def)

lemma update_player_energy_ok: "energy_ok (update_player ks sf g)"
  using clamp_energy by (simp add: update_player_def energy_ok_def Player_update_energy)

lemma update_play_energy_ok: "energy_ok (update_play ks g)"
  unfolding update_play_def Let_def
  by (intro reset_touch_energy_ok update_score_energy_ok fall_check_energy_ok
      cleanup_energy_ok resolve_bonus_pickups_energy_ok resolve_enemy_collisions_energy_ok
      resolve_platform_collisions_energy_ok spawn_next_energy_ok camera_energy_ok
      update_player_energy_ok)

lemma update_quiz_energy_ok: "energy_ok g \<Longrightarrow> energy_ok (update_quiz g)"
  using resolve_quiz_result_energy_ok [of "g\<lparr>quiz := QuizUI_update (quiz g)\<rparr>"]
  by (simp add: update_quiz_def Let_def energy_ok_def)

lemma update_energy_ok: "energy_ok g \<Longrightarrow> energy_ok (update ks g)"
  by (cases "gstate g") (simp_all add: update_def update_play_energy_ok update_quiz_energy_ok)

lemma apply_op_energy_ok: "energy_ok g \<Longrightarrow> energy_ok (apply_op x g)"
  by (cases x)
     (simp_all add: update_energy_ok Player_update_energy_ok take_enemy_hit_energy_ok
        land_energy_ok apply_bonus_energy_ok resolve_quiz_result_energy_ok)

lemma init_run_energy_ok: "energy_ok (init_run r g)"
  using init_run_core [of r g]
  by (simp add: core_def energy_ok_def new_player_def INITIAL_ENERGY_def)

text \<open>
  C2. A new run starts with the energy in [0, 100] (it is 100), and from a new run, as
  from every game whose player's energy is in [0, 100], after each operation of every
  sequence of whole ticks, player updates, enemy hits, platform landings, bonus pickups
  and quiz resolutions, the energy is in [0, 100].
\<close>

theorem energy_always_in_range:
  "energy_ok (init_run r g0)
   \<and> list_all energy_ok (states ops (init_run r g0))
   \<and> (energy_ok g \<longrightarrow> list_all energy_ok (states ops g))"
proof -
  have step: "list_all energy_ok (states ops h)" if "energy_ok h" for h
    using that by (induction ops arbitrary: h) (simp_all add: apply_op_energy_ok)
  from step [OF init_run_energy_ok] step init_run_energy_ok show ?thesis
    by blast
qed

theorem energy_always_in_range_witness:
  "energy_ok (scene [] falling_player)
   \<and> list_all energy_ok
        (states [OP_ENEMY_HIT, OP_TICK \<lparr>key_left = False, key_right = True\<rparr>,
                 OP_LAND 1 hydro_platform, OP_BONUS (new_bonus 230 600 B_CELL 0),
                 OP_UPDATE \<lparr>key_left = True, key_right = False\<rparr> None,
                 OP_QUIZ_RESULT True]
           (scene [] falling_player))
   \<and> map (\<lambda>h. energy (player h))
        (states [OP_ENEMY_HIT, OP_ENEMY_HIT, OP_ENEMY_HIT] (scene [] falling_player))
       = [28, 6, 0]"
proof -
  have a: "energy_ok (scene [] falling_player)"
    by (simp add: energy_ok_def scene_def falling_player_def)
  have b: "map (\<lambda>h. energy (player h))
        (states [OP_ENEMY_HIT, OP_ENEMY_HIT, OP_ENEMY_HIT] (scene [] falling_player))
       = [28, 6, 0]"
    by (simp add: scene_def falling_player_def start_player_def new_player_def
          take_enemy_hit_def Let_def clamp_def ENEMY_HIT_ENERGY_LOSS_def)
  show ?thesis
    using a b
      energy_always_in_range [where g = "scene [] falling_player" and ops =
        "[OP_ENEMY_HIT, OP_TICK \<lparr>key_left = False, key_right = True\<rparr>,
          OP_LAND 1 hydro_platform, OP_BONUS (new_bonus 230 600 B_CELL 0),
          OP_UPDATE \<lparr>key_left = True, key_right = False\<rparr> None,
          OP_QUIZ_RESULT True]"]
    by blast
qed

subsection \<open>Score\<close>

lemma score_step_core: "core h' = core h \<Longrightarrow> score_step s a h' = score_step s a h"
  by (simp add: score_step_def core_def)

lemma game_over_score:
  "score (game_over g) = max (score g) (distance_score (ascended_px g))
   \<and> ascended_px (game_over g) = ascended_px g"
  by (simp add: game_over_def Let_def distance_score_def)

lemma game_over_score_step: "score_step s a h \<Longrightarrow> score_step s a (game_over h)"
  using game_over_score [of h] by (auto simp: score_step_def)

lemma trigger_quiz_score_step: "score_step s a h \<Longrightarrow> score_step s a (trigger_quiz h)"
  using game_over_score_step [of s a "h\<lparr>player := (player h)\<lparr>lives := lives (player h) - 1\<rparr>\<rparr>"]
  by (auto simp: trigger_quiz_def Let_def score_step_def split: prod.splits)

lemma handle_platform_effect_score_step:
  "score_step s a h \<Longrightarrow> score_step s a (handle_platform_effect p h)"
  by (cases "plat_kind p") (simp_all add: handle_platform_effect_def score_step_def)

lemma land_score_step: "score_step s a h \<Longrightarrow> score_step s a (land sf p h)"
  unfolding land_def Let_def
  by (rule handle_platform_effect_score_step) (simp add: score_step_def)

lemma apply_bonus_score_step: "score_step s a h \<Longrightarrow> score_step s a (apply_bonus b h)"
  by (cases "bo_kind b") (simp_all add: apply_bonus_def score_step_def)

lemma enemy_step_score_step: "score_step s a h \<Longrightarrow> score_step s a (snd (enemy_step sf e h))"
proof -
  assume h: "score_step s a h"
  have "score_step s a (h\<lparr>player := pl, global_rng := r\<rparr>)" for pl r
    using h by (simp add: score_step_def)
  then show ?thesis
    using h by (auto simp: enemy_step_def Let_def split: prod.splits
                  intro: trigger_quiz_score_step)
qed

lemma bonus_step_score_step: "score_step s a h \<Longrightarrow> score_step s a (snd (bonus_step b h))"
  by (simp add: bonus_step_def Let_def apply_bonus_score_step)

lemma resolve_platform_collisions_score_step:
  "score_step s a h \<Longrightarrow> score_step s a (resolve_platform_collisions sf h)"
  using land_scan_invariant [of "score_step s a" sf h "platforms h", OF land_score_step]
  by (simp add: resolve_platform_collisions_def Let_def score_step_def)

lemma resolve_enemy_collisions_score_step:
  "score_step s a h \<Longrightarrow> score_step s a (resolve_enemy_collisions sf h)"
  using enemy_scan_invariant [of "score_step s a" sf h "enemies h", OF enemy_step_score_step]
  by (simp add: resolve_enemy_collisions_def score_step_def case_prod_unfold)

lemma resolve_bonus_pickups_score_step:
  "score_step s a h \<Longrightarrow> score_step s a (resolve_bonus_pickups h)"
  using bonus_scan_invariant [of "score_step s a" h "bonuses h", OF bonus_step_score_step]
  by (simp add: resolve_bonus_pickups_def score_step_def case_prod_unfold)

lemma cleanup_score_step: "score_step s a h \<Longrightarrow> score_step s a (cleanup h)"
  by (simp add: cleanup_def score_step_def)

lemma fall_check_score_step: "score_step s a h \<Longrightarrow> score_step s a (fall_check h)"
proof -
  assume h: "score_step s a h"
  then have "score_step s a (h\<lparr>player := (player h)\<lparr>energy := 0\<rparr>\<rparr>)"
    by (simp add: score_step_def)
  with h show ?thesis
    by (simp add: fall_check_def trigger_quiz_score_step)
qed

lemma spawn_next_score_step: "score_step s a h \<Longrightarrow> score_step s a (spawn_next h)"
  using score_step_core [OF spawn_next_core] by simp

lemma finish_score:
  "score_step s a h \<Longrightarrow>
     score (reset_touch (update_score h)) = max s (distance_score a)
     \<and> ascended_px (reset_touch (update_score h)) = a"
  by (auto simp: score_step_def reset_touch_def update_score_def Let_def distance_score_def)

lemma SCROLL_TRIGGER_Y_eq: "SCROLL_TRIGGER_Y = 288"
  by (simp add: SCROLL_TRIGGER_Y_def HEIGHT_def py_int_def)

lemma camera_score: "score (camera g) = score g \<and> ascended_px g \<le> ascended_px (camera g)"
  by (simp add: camera_def Let_def)

lemma before_camera_score:
  "score (update_player ks sf (update_platforms sf' (accelerate sf'' (sync_score g)))) = score g
   \<and> ascended_px (update_player ks sf (update_platforms sf' (accelerate sf'' (sync_score g))))
       = ascended_px g"
  by (simp add: update_player_def update_platforms_def accelerate_def sync_score_def)

lemma update_play_score:
  "score (update_play ks g) = max (score g) (distance_score (ascended_px (update_play ks g)))
   \<and> ascended_px g \<le> ascended_px (update_play ks g)"
proof -
  define sf where "sf = speed_factor (world (sync_score g))"
  define g2 where "g2 = update_player ks sf (update_platforms sf (accelerate sf (sync_score g)))"
  define g4 where "g4 = cleanup (resolve_bonus_pickups (resolve_enemy_collisions sf
                          (resolve_platform_collisions sf (spawn_next (camera g2)))))"
  have u: "update_play ks g = reset_touch (update_score (fall_check g4))"
    by (simp add: update_play_def Let_def g4_def g2_def sf_def)
  have s2: "score g2 = score g" "ascended_px g2 = ascended_px g"
    using before_camera_score [of ks sf sf sf g] by (simp_all add: g2_def)
  have "score_step (score g) (ascended_px (camera g2)) (camera g2)"
    using camera_score [of g2] s2 by (simp add: score_step_def)
  then have "score_step (score g) (ascended_px (camera g2)) (fall_check g4)"
    unfolding g4_def
    by (intro fall_check_score_step cleanup_score_step resolve_bonus_pickups_score_step
        resolve_enemy_collisions_score_step resolve_platform_collisions_score_step
        spawn_next_score_step)
  from finish_score [OF this] camera_score [of g2] s2 show ?thesis
    by (simp add: u)
qed

lemma update_quiz_score:
  "score (update_quiz g) = score g
   \<or> score (update_quiz g) = max (score g) (distance_score (ascended_px (update_quiz g)))"
  using game_over_score [of "g\<lparr>quiz := QuizUI_update (quiz g)\<rparr>"]
  by (simp add: update_quiz_def Let_def resolve_quiz_result_def)

lemma update_quiz_ascended: "ascended_px (update_quiz g) = ascended_px g"
  using game_over_score [of "g\<lparr>quiz := QuizUI_update (quiz g)\<rparr>"]
  by (simp add: update_quiz_def Let_def resolve_quiz_result_def)

lemma update_score_cases:
  "score (update ks g) = score g
   \<or> score (update ks g) = max (score g) (distance_score (ascended_px (update ks g)))"
  using update_play_score [of ks g] update_quiz_score [of g]
  by (cases "gstate g") (simp_all add: update_def)

lemma update_score_mono: "score g \<le> score (update ks g)"
  using update_score_cases [of ks g] by auto

lemma run_score_mono: "score g \<le> score (run kss g)"
proof (induction kss arbitrary: g)
  case Nil
  show ?case by simp
next
  case (Cons k kss)
  have "score g \<le> score (update k g)" by (rule update_score_mono)
  also have "\<dots> \<le> score (run kss (update k g))" by (rule Cons.IH)
  finally show ?case by simp
qed

lemma distance_score_floor: "0 \<le> a \<Longrightarrow> distance_score a = \<lfloor>real_of_int a * 0.06\<rfloor>"
  by (simp add: distance_score_def py_int_def)

lemma spawn_loop_done: "spawn_y (world g) \<le> - HEIGHT \<Longrightarrow> spawn_loop g = g"
  by (subst spawn_loop.simps) simp

text \<open>A whole tick, evaluated.\<close>

lemma climbing_tick:
  "ascended_px (update no_keys climbing) = 4000 \<and> score (update no_keys climbing) = 240
   \<and> energy (player (update no_keys climbing)) = 12494 / 125
   \<and> gstate (update no_keys climbing) = STATE_PLAY"
  apply (simp add: update_def climbing_def scene_def update_play_def Let_def)
  apply (simp add: sync_score_def speed_factor_def progress_factor_def clamp_def
     accelerate_def update_platforms_def update_player_def start_player_def new_player_def
     Player_update_def horizontal_control_def apply_horizontal_def apply_vertical_def
     energy_drain_def tick_timers_def speed_override_def no_keys_def Let_def
     config_defs rect_centered_def set_center_def move_x_def move_y_def rect_right_def
     rect_left_def set_left_def set_right_def py_int_def)
  apply (simp add: camera_def rect_top_def SCROLL_TRIGGER_Y_eq spawn_next_def Let_def
     spawn_loop_done HEIGHT_def cap_platforms_def resolve_platform_collisions_def
     resolve_enemy_collisions_def resolve_bonus_pickups_def cleanup_def fall_check_def
     fell_off_def update_score_def reset_touch_def py_int_def)
  done

text \<open>
  C5. A tick never lowers the score, and neither does a run of ticks. A tick leaves the
  score as it is or raises it to the maximum of its value and
  \<open>int(ascended_px * 0.06)\<close>, which is the floor for the distances of a run (they are
  not negative); a PLAY tick always sets it to that maximum, and so does the end of the
  game.
\<close>

theorem score_monotone:
  "score g \<le> score (update ks g)
   \<and> score g \<le> score (run kss g)
   \<and> (score (update ks g) = score g
        \<or> score (update ks g) = max (score g) (distance_score (ascended_px (update ks g))))
   \<and> (gstate g = STATE_PLAY \<longrightarrow>
        score (update ks g) = max (score g) (distance_score (ascended_px (update ks g))))
   \<and> score (game_over g) = max (score g) (distance_score (ascended_px g))
   \<and> (0 \<le> ascended_px g \<longrightarrow>
        distance_score (ascended_px g) = \<lfloor>real_of_int (ascended_px g) * 0.06\<rfloor>)"
  using update_score_mono [of g ks] run_score_mono [of g kss] update_score_cases [of ks g]
    update_play_score [of ks g] game_over_score [of g] distance_score_floor [of "ascended_px g"]
  by (simp add: update_def)

theorem score_monotone_witness:
  "gstate climbing = STATE_PLAY
   \<and> 0 \<le> ascended_px climbing
   \<and> score climbing = 0
   \<and> score (update no_keys climbing) = 240
   \<and> score (update no_keys climbing)
       = max (score climbing) (distance_score (ascended_px (update no_keys climbing)))
   \<and> distance_score (ascended_px climbing) = \<lfloor>real_of_int (ascended_px climbing) * 0.06\<rfloor>"
proof -
  have a: "gstate climbing = STATE_PLAY" "0 \<le> ascended_px climbing" "score climbing = 0"
    by (simp_all add: climbing_def scene_def)
  show ?thesis
    using a climbing_tick
      score_monotone [where g = climbing and ks = no_keys and kss = "[]"]
    by blast
qed

subsection \<open>Life loss\<close>

lemma update_play_split:
  "update_play ks g = reset_touch (update_score (fall_check (before_fall ks g)))"
  by (simp add: update_play_def before_fall_def before_enemies_def tick_speed_def Let_def)

lemma kept_core: "core h' = core h \<Longrightarrow> kept s l h' = kept s l h"
  by (simp add: kept_def core_def)

lemma handle_platform_effect_kept: "kept s l h \<Longrightarrow> kept s l (handle_platform_effect p h)"
  by (cases "plat_kind p") (simp_all add: handle_platform_effect_def kept_def)

lemma land_kept: "kept s l h \<Longrightarrow> kept s l (land sf p h)"
  unfolding land_def Let_def
  by (rule handle_platform_effect_kept) (simp add: kept_def mark_safe_platform_def bounce_def)

lemma resolve_platform_collisions_kept:
  "kept s l h \<Longrightarrow> kept s l (resolve_platform_collisions sf h)"
  using land_scan_invariant [of "kept s l" sf h "platforms h", OF land_kept]
  by (simp add: resolve_platform_collisions_def Let_def kept_def)

lemma before_enemies_kept: "kept (gstate g) (lives (player g)) (before_enemies ks g)"
proof -
  have "kept (gstate g) (lives (player g))
          (camera (update_player ks sf (update_platforms sf (accelerate sf (sync_score g)))))" for sf
    by (simp add: kept_def camera_def Let_def update_player_def update_platforms_def
        accelerate_def sync_score_def)
  then show ?thesis
    unfolding before_enemies_def Let_def
    by (intro resolve_platform_collisions_kept) (simp add: kept_core [OF spawn_next_core])
qed

text \<open>The bonus loop, the cleanup, the score step and the touch reset write neither the
  state nor the lives.\<close>

lemma apply_bonus_frame:
  "gstate (apply_bonus b h) = gstate h \<and> lives (player (apply_bonus b h)) = lives (player h)"
  by (cases "bo_kind b") (simp_all add: apply_bonus_def)

lemma bonus_step_frame:
  "gstate (snd (bonus_step b h)) = gstate h
   \<and> lives (player (snd (bonus_step b h))) = lives (player h)"
  by (simp add: bonus_step_def Let_def apply_bonus_frame)

lemma resolve_bonus_pickups_frame:
  "gstate (resolve_bonus_pickups h) = gstate h
   \<and> lives (player (resolve_bonus_pickups h)) = lives (player h)"
  using bonus_scan_invariant
    [of "\<lambda>x. gstate x = gstate h \<and> lives (player x) = lives (player h)" h "bonuses h"]
    bonus_step_frame
  by (simp add: resolve_bonus_pickups_def case_prod_unfold)

lemma tail_frame:
  "gstate (reset_touch (update_score h)) = gstate h
   \<and> lives (player (reset_touch (update_score h))) = lives (player h)"
  by (simp add: reset_touch_def update_score_def Let_def)

lemma cleanup_frame:
  "gstate (cleanup h) = gstate h \<and> lives (player (cleanup h)) = lives (player h)"
  by (simp add: cleanup_def)

text \<open>One enemy: without a trigger nothing of state and lives changes; with one a life is
  gone and the game has left PLAY.\<close>

lemma trigger_quiz_lost:
  "lives (player h) \<le> l \<Longrightarrow> lost l (trigger_quiz h)"
  by (auto simp: lost_def trigger_quiz_def Let_def split: prod.splits)

lemma enemy_step_quiet:
  "\<not> fires sf e h \<Longrightarrow>
     gstate (snd (enemy_step sf e h)) = gstate h
     \<and> lives (player (snd (enemy_step sf e h))) = lives (player h)"
  by (auto simp: enemy_step_def fires_def Let_def take_enemy_hit_def split: prod.splits)

lemma take_enemy_hit_lives [simp]: "lives (take_enemy_hit p) = lives p"
  by (simp add: take_enemy_hit_def Let_def)

lemma enemy_step_fires:
  "fires sf e h \<Longrightarrow> lives (player h) \<le> l \<Longrightarrow> lost l (snd (enemy_step sf e h))"
proof -
  assume f: "fires sf e h" and l: "lives (player h) \<le> l"
  have "lost l (trigger_quiz (h\<lparr>player := take_enemy_hit (player h), global_rng := r\<rparr>))" for r
    using l by (intro trigger_quiz_lost) simp
  with f show ?thesis
    by (auto simp: enemy_step_def fires_def Let_def split: prod.splits)
qed

lemma enemy_step_lost: "lost l h \<Longrightarrow> lost l (snd (enemy_step sf e h))"
proof (cases "fires sf e h")
  case True
  assume "lost l h"
  then have "lives (player h) \<le> l" by (simp add: lost_def)
  with True show ?thesis by (rule enemy_step_fires)
next
  case False
  assume "lost l h"
  with enemy_step_quiet [OF False] show ?thesis by (simp add: lost_def)
qed

lemma enemy_scan_quiet:
  "\<not> enemy_triggers sf es h \<Longrightarrow>
     gstate (snd (enemy_scan sf es h)) = gstate h
     \<and> lives (player (snd (enemy_scan sf es h))) = lives (player h)"
proof (induction es arbitrary: h)
  case Nil
  show ?case by simp
next
  case (Cons e es)
  then have q: "\<not> fires sf e h" "\<not> enemy_triggers sf es (snd (enemy_step sf e h))"
    by simp_all
  from Cons.IH [OF q(2)] enemy_step_quiet [OF q(1)] show ?case
    by (simp add: case_prod_unfold)
qed

lemma enemy_scan_lost: "lost l h \<Longrightarrow> lost l (snd (enemy_scan sf es h))"
  using enemy_scan_invariant [of "lost l" sf h es, OF enemy_step_lost] by simp

lemma enemy_scan_triggers:
  "enemy_triggers sf es h \<Longrightarrow> lost (lives (player h)) (snd (enemy_scan sf es h))"
proof (induction es arbitrary: h)
  case Nil
  then show ?case by simp
next
  case (Cons e es)
  show ?case
  proof (cases "fires sf e h")
    case True
    then have "lost (lives (player h)) (snd (enemy_step sf e h))"
      by (rule enemy_step_fires) simp
    then have "lost (lives (player h)) (snd (enemy_scan sf es (snd (enemy_step sf e h))))"
      by (rule enemy_scan_lost)
    then show ?thesis by (simp add: case_prod_unfold)
  next
    case False
    with Cons.prems have t: "enemy_triggers sf es (snd (enemy_step sf e h))" by simp
    from Cons.IH [OF t] enemy_step_quiet [OF False] show ?thesis
      by (simp add: case_prod_unfold)
  qed
qed

lemma resolve_enemy_collisions_snd:
  "gstate (resolve_enemy_collisions sf h) = gstate (snd (enemy_scan sf (enemies h) h))
   \<and> lives (player (resolve_enemy_collisions sf h))
       = lives (player (snd (enemy_scan sf (enemies h) h)))"
  by (simp add: resolve_enemy_collisions_def case_prod_unfold)

lemma before_fall_frame:
  "gstate (before_fall ks g)
     = gstate (snd (enemy_scan (tick_speed g) (enemies (before_enemies ks g)) (before_enemies ks g)))
   \<and> lives (player (before_fall ks g))
     = lives (player (snd (enemy_scan (tick_speed g) (enemies (before_enemies ks g))
         (before_enemies ks g))))"
  by (simp add: before_fall_def cleanup_frame resolve_bonus_pickups_frame
      resolve_enemy_collisions_snd)

lemma fall_check_lost:
  "fell_off h \<Longrightarrow> lives (player h) \<le> l \<Longrightarrow> lost l (fall_check h)"
  by (simp add: fall_check_def trigger_quiz_lost)

lemma fall_check_quiet: "\<not> fell_off h \<Longrightarrow> fall_check h = h"
  by (simp add: fall_check_def)

lemma play_tick_quiet:
  assumes "gstate g = STATE_PLAY" and "\<not> life_loss ks g"
  shows "gstate (update_play ks g) = STATE_PLAY
       \<and> lives (player (update_play ks g)) = lives (player g)"
proof -
  from assms(2) have q:
    "\<not> enemy_triggers (tick_speed g) (enemies (before_enemies ks g)) (before_enemies ks g)"
    "\<not> fell_off (before_fall ks g)"
    by (simp_all add: life_loss_def)
  from enemy_scan_quiet [OF q(1)] before_enemies_kept [of g ks] before_fall_frame [of ks g]
  have "gstate (before_fall ks g) = gstate g
        \<and> lives (player (before_fall ks g)) = lives (player g)"
    by (simp add: kept_def)
  with q(2) assms(1) show ?thesis
    by (simp add: update_play_split fall_check_quiet tail_frame)
qed

lemma play_tick_loss:
  assumes "life_loss ks g"
  shows "lost (lives (player g)) (update_play ks g)"
proof -
  let ?h0 = "before_enemies ks g"
  let ?h3 = "before_fall ks g"
  have k: "lives (player ?h0) = lives (player g)"
    using before_enemies_kept [of g ks] by (simp add: kept_def)
  have l4: "lost (lives (player g)) (fall_check ?h3)"
  proof (cases "enemy_triggers (tick_speed g) (enemies ?h0) ?h0")
    case True
    from enemy_scan_triggers [OF True] before_fall_frame [of ks g] k
    have l3: "lost (lives (player g)) ?h3"
      by (simp add: lost_def)
    show ?thesis
    proof (cases "fell_off ?h3")
      case True
      with l3 show ?thesis by (intro fall_check_lost) (simp_all add: lost_def)
    next
      case False
      with l3 show ?thesis by (simp add: fall_check_quiet)
    qed
  next
    case False
    with assms have f: "fell_off ?h3" by (simp add: life_loss_def)
    from enemy_scan_quiet [OF False] before_fall_frame [of ks g] k
    have "lives (player ?h3) = lives (player g)" by simp
    with f show ?thesis by (intro fall_check_lost) simp_all
  qed
  then show ?thesis
    using tail_frame [of "fall_check ?h3"] by (simp add: update_play_split lost_def)
qed

lemma quiet_run_keeps:
  "gstate g = STATE_PLAY \<Longrightarrow> quiet_run kss g \<Longrightarrow>
     gstate (run kss g) = STATE_PLAY \<and> lives (player (run kss g)) = lives (player g)"
proof (induction kss arbitrary: g)
  case Nil
  then show ?case by simp
next
  case (Cons k kss)
  then have q: "\<not> life_loss k g" "quiet_run kss (update k g)" by simp_all
  have u: "update k g = update_play k g"
    using Cons.prems(1) by (simp add: update_def)
  from play_tick_quiet [OF Cons.prems(1) q(1)] u
  have s: "gstate (update k g) = STATE_PLAY" "lives (player (update k g)) = lives (player g)"
    by simp_all
  from Cons.IH [OF s(1) q(2)] s(2) show ?case by simp
qed

lemma passive_drain_at_zero: "energy p = 0 \<Longrightarrow> energy (Player_update ks tx p) = 0"
  by (simp add: Player_update_energy clamp_def PASSIVE_ENERGY_DRAIN_def)


text \<open>Ticks of a player in free fall, evaluated: alone, and with a chaser on the
  player.\<close>

lemma py_int_zero [simp]: "py_int 0 = 0"
  by (simp add: py_int_def)

lemma py_int_small: "\<bar>x\<bar> < 1 \<Longrightarrow> py_int x = 0"
  by (auto simp: py_int_def floor_eq_iff ceiling_eq_iff)

lemma py_int_sin_small: "\<bar>c\<bar> < 1 \<Longrightarrow> py_int (sin a * c) = 0"
proof (rule py_int_small)
  assume c: "\<bar>c\<bar> < 1"
  have "\<bar>sin a * c\<bar> = \<bar>sin a\<bar> * \<bar>c\<bar>" by (simp add: abs_mult)
  also have "\<dots> \<le> 1 * \<bar>c\<bar>" by (intro mult_right_mono) simp_all
  finally show "\<bar>sin a * c\<bar> < 1" using c by simp
qed

lemma drifting_before_enemies:
  assumes "0 \<le> v" and "288 < y + py_int (v + 1 / 2)"
  shows "before_enemies no_keys (drifting es y0 y v)
           = drifting es y (y + py_int (v + 1 / 2)) (v + 1 / 2)"
  using assms
  apply (simp add: before_enemies_def tick_speed_def drifting_def scene_def Let_def)
  apply (simp add: sync_score_def speed_factor_def progress_factor_def clamp_def
     accelerate_def update_platforms_def update_player_def start_player_def new_player_def
     Player_update_def horizontal_control_def apply_horizontal_def apply_vertical_def
     energy_drain_def tick_timers_def speed_override_def no_keys_def Let_def
     config_defs rect_centered_def set_center_def move_x_def move_y_def rect_right_def
     rect_left_def set_left_def set_right_def)
  apply (simp add: camera_def rect_top_def SCROLL_TRIGGER_Y_eq spawn_next_def Let_def
     spawn_loop_done HEIGHT_def cap_platforms_def resolve_platform_collisions_def)
  done

lemma drifting_tick_speed: "tick_speed (drifting es y0 y v) = 1"
  by (simp add: tick_speed_def drifting_def scene_def speed_factor_def progress_factor_def
      clamp_def)

lemma drifting_after_enemies:
  "cleanup (resolve_bonus_pickups (resolve_enemy_collisions sf (drifting [] y0 y v)))
     = drifting [] y0 y v"
  by (simp add: drifting_def scene_def cleanup_def resolve_bonus_pickups_def
      resolve_enemy_collisions_def)

lemma drifting_before_fall:
  assumes "0 \<le> v" and "288 < y + py_int (v + 1 / 2)"
  shows "before_fall no_keys (drifting [] y0 y v)
           = drifting [] y (y + py_int (v + 1 / 2)) (v + 1 / 2)"
  by (simp add: before_fall_def drifting_before_enemies [OF assms] drifting_after_enemies)

lemma drifting_fields:
  "enemies (drifting es y0 y v) = es" "gstate (drifting es y0 y v) = STATE_PLAY"
  "energy (player (drifting es y0 y v)) = 0" "lives (player (drifting es y0 y v)) = 2"
  "fell_off (drifting es y0 y v) = (780 < y)"
  by (simp_all add: drifting_def scene_def start_player_def new_player_def fell_off_def
      rect_top_def HEIGHT_def)

lemma drifting_life_loss:
  assumes "0 \<le> v" and "288 < y + py_int (v + 1 / 2)"
  shows "life_loss no_keys (drifting [] y0 y v) = (780 < y + py_int (v + 1 / 2))"
  by (simp add: life_loss_def drifting_before_enemies [OF assms] drifting_before_fall [OF assms]
      drifting_fields)

lemma drifting_tick:
  assumes "0 \<le> v" and "288 < y + py_int (v + 1 / 2)" and "y + py_int (v + 1 / 2) \<le> 780"
  shows "update no_keys (drifting [] y0 y v) = drifting [] y (y + py_int (v + 1 / 2)) (v + 1 / 2)"
proof -
  let ?d = "drifting [] y (y + py_int (v + 1 / 2)) (v + 1 / 2)"
  have f: "\<not> fell_off ?d"
    using assms(3) by (simp add: drifting_fields)
  have t: "reset_touch (update_score ?d) = ?d"
    by (simp add: reset_touch_def update_score_def Let_def drifting_def scene_def
        start_player_def new_player_def)
  show ?thesis
    using drifting_before_fall [OF assms(1,2), of y0] f t
    by (simp add: update_def drifting_fields update_play_split fall_check_quiet)
qed

lemma chaser_fires: "fires 1 chaser (drifting [chaser] 555 555 (1 / 2))"
  using py_int_sin_small [of "3 / 5" "3 / 100"]
  by (simp add: fires_def drifting_def scene_def start_player_def new_player_def
      Enemy_update_def chaser_def Let_def rect_centerx_def move_y_def
      ENEMY_SINE_SPEED_def colliderect_def take_enemy_hit_def clamp_def
      ENEMY_HIT_ENERGY_LOSS_def)

lemma chaser_life_loss: "life_loss no_keys (drifting [chaser] 555 555 0)"
proof -
  have "before_enemies no_keys (drifting [chaser] 555 555 0)
          = drifting [chaser] 555 555 (1 / 2)"
    using drifting_before_enemies [of 0 555 "[chaser]" 555] by (simp add: py_int_def)
  then show ?thesis
    using chaser_fires by (simp add: life_loss_def drifting_tick_speed drifting_fields)
qed


text \<open>
  C10. In a PLAY tick the game leaves PLAY exactly when the life-loss event happens, and
  the lives go down exactly then: an enemy overlaps the player with the energy at zero
  after the hit, or the player has fallen below the viewport. The energy alone decides
  nothing: the passive drain keeps an energy of 0 at 0, and through any run of ticks
  without the event the game stays in PLAY with the lives it had, however low the
  energy is.
\<close>

theorem life_loss_only_by_enemy_or_fall:
  assumes "gstate g = STATE_PLAY"
  shows "(life_loss ks g \<longleftrightarrow> gstate (update ks g) \<noteq> STATE_PLAY)
       \<and> (life_loss ks g \<longleftrightarrow> lives (player (update ks g)) < lives (player g))
       \<and> (\<not> life_loss ks g \<longrightarrow> lives (player (update ks g)) = lives (player g))
       \<and> (quiet_run kss g \<longrightarrow>
            gstate (run kss g) = STATE_PLAY \<and> lives (player (run kss g)) = lives (player g))
       \<and> (energy p = 0 \<longrightarrow> energy (Player_update ks tx p) = 0)
       \<and> 0 \<le> energy (player (update ks g))"
proof -
  have u: "update ks g = update_play ks g"
    using assms by (simp add: update_def)
  have e: "0 \<le> energy (player (update ks g))"
    using update_play_energy_ok [of ks g] by (simp add: u energy_ok_def)
  show ?thesis
  proof (cases "life_loss ks g")
    case True
    from play_tick_loss [OF True] e quiet_run_keeps [OF assms, of kss]
      passive_drain_at_zero [of p ks tx] True
    show ?thesis by (auto simp: u lost_def)
  next
    case False
    from play_tick_quiet [OF assms False] e quiet_run_keeps [OF assms, of kss]
      passive_drain_at_zero [of p ks tx] False
    show ?thesis by (auto simp: u)
  qed
qed

theorem life_loss_only_by_enemy_or_fall_witness:
  "gstate (drifting [] 555 555 0) = STATE_PLAY
   \<and> energy (player (drifting [] 555 555 0)) = 0
   \<and> \<not> life_loss no_keys (drifting [] 555 555 0)
   \<and> gstate (update no_keys (drifting [] 555 555 0)) = STATE_PLAY
   \<and> quiet_run [no_keys, no_keys, no_keys] (drifting [] 555 555 0)
   \<and> run [no_keys, no_keys, no_keys] (drifting [] 555 555 0) = drifting [] 556 557 (3 / 2)
   \<and> gstate (run [no_keys, no_keys, no_keys] (drifting [] 555 555 0)) = STATE_PLAY
   \<and> lives (player (run [no_keys, no_keys, no_keys] (drifting [] 555 555 0))) = 2
   \<and> energy (player (run [no_keys, no_keys, no_keys] (drifting [] 555 555 0))) = 0
   \<and> life_loss no_keys (drifting [chaser] 555 555 0)
   \<and> gstate (update no_keys (drifting [chaser] 555 555 0)) \<noteq> STATE_PLAY
   \<and> lives (player (update no_keys (drifting [chaser] 555 555 0))) < 2
   \<and> life_loss no_keys (drifting [] 770 778 5)
   \<and> gstate (update no_keys (drifting [] 770 778 5)) \<noteq> STATE_PLAY
   \<and> energy (start_player\<lparr>energy := 0\<rparr>) = 0
   \<and> energy (Player_update no_keys None (start_player\<lparr>energy := 0\<rparr>)) = 0"
proof -
  let ?ks = "[no_keys, no_keys, no_keys]"
  have a: "gstate (drifting es y0 y v) = STATE_PLAY" "energy (player (drifting es y0 y v)) = 0"
       "lives (player (drifting es y0 y v)) = 2" for es y0 y v
    by (simp_all add: drifting_fields)
  have q1: "\<not> life_loss no_keys (drifting [] 555 555 0)"
    using drifting_life_loss [of 0 555 555] by (simp add: py_int_def)
  have q2: "\<not> life_loss no_keys (drifting [] 555 555 (1 / 2))"
    using drifting_life_loss [of "1 / 2" 555 555] by (simp add: py_int_def)
  have q3: "\<not> life_loss no_keys (drifting [] 555 556 1)"
    using drifting_life_loss [of 1 556 555] by (simp add: py_int_def)
  have t1: "update no_keys (drifting [] 555 555 0) = drifting [] 555 555 (1 / 2)"
    using drifting_tick [of 0 555 555] by (simp add: py_int_def)
  have t2: "update no_keys (drifting [] 555 555 (1 / 2)) = drifting [] 555 556 1"
    using drifting_tick [of "1 / 2" 555 555] by (simp add: py_int_def)
  have t3: "update no_keys (drifting [] 555 556 1) = drifting [] 556 557 (3 / 2)"
    using drifting_tick [of 1 556 555] by (simp add: py_int_def)
  have q: "quiet_run ?ks (drifting [] 555 555 0)"
    by (simp add: q1 q2 q3 t1 t2)
  have r: "run ?ks (drifting [] 555 555 0) = drifting [] 556 557 (3 / 2)"
    by (simp add: t1 t2 t3)
  have f: "life_loss no_keys (drifting [] 770 778 5)"
    using drifting_life_loss [of 5 778 770] by (simp add: py_int_def)
  have z: "energy (start_player\<lparr>energy := 0\<rparr>) = 0"
    by simp
  note quiet = life_loss_only_by_enemy_or_fall [where g = "drifting [] 555 555 0"
      and ks = no_keys and kss = ?ks and p = "start_player\<lparr>energy := 0\<rparr>" and tx = None,
      OF a(1)]
  note enemy = life_loss_only_by_enemy_or_fall [where g = "drifting [chaser] 555 555 0"
      and ks = no_keys, OF a(1)]
  note fall = life_loss_only_by_enemy_or_fall [where g = "drifting [] 770 778 5"
      and ks = no_keys, OF a(1)]
  have c1: "gstate (update no_keys (drifting [] 555 555 0)) = STATE_PLAY"
    using q1 quiet by blast
  have c2: "gstate (run ?ks (drifting [] 555 555 0)) = STATE_PLAY
            \<and> lives (player (run ?ks (drifting [] 555 555 0)))
                = lives (player (drifting [] 555 555 0))"
    using q quiet by blast
  have c3: "energy (Player_update no_keys None (start_player\<lparr>energy := 0\<rparr>)) = 0"
    using z quiet by blast
  have c4: "gstate (update no_keys (drifting [chaser] 555 555 0)) \<noteq> STATE_PLAY
            \<and> lives (player (update no_keys (drifting [chaser] 555 555 0)))
                < lives (player (drifting [chaser] 555 555 0))"
    using chaser_life_loss enemy by blast
  have c5: "gstate (update no_keys (drifting [] 770 778 5)) \<noteq> STATE_PLAY"
    using f fall by blast
  have e: "energy (player (run ?ks (drifting [] 555 555 0))) = 0"
    by (simp only: r a(2))
  show ?thesis
    using a(1) [of "[]" 555 555 0] a(2) [of "[]" 555 555 0] q1 c1 q r c2 c3 c4 c5 e f z
      chaser_life_loss
    by (simp only: a(3)) blast
qed

end
